theory Spec2Isabelle
  imports Main
begin

section \<open>The three programs\<close>

text \<open>
  The repository holds three programs that turn the settings of a PeerTube
  plugin into FFmpeg options for a fixed list of resolutions.
  \<^item> The live-reload variant (\<^verbatim>\<open>updateTranscodingProfiles\<close>, \<^verbatim>\<open>unregister\<close>)
    registers, on every change of the settings, a video and an audio profile
    and two encoder priorities for each enabled resolution.
  \<^item> The hook variant (the first program of \<^verbatim>\<open>main.ts\<close>) rewrites the profiles
    of a transcoding hook into one argument string each, with the placeholders
    \<^verbatim>\<open>%w\<close> and \<^verbatim>\<open>%h\<close> of the output filters resolved.
  \<^item> The single-profile variant (the second program of \<^verbatim>\<open>main.ts\<close>) registers
    one audio and one video builder under one profile name.
  The first and the third share \<^verbatim>\<open>parseOptionsString\<close>. The host (its
  transcoding manager, settings manager and logger) is not part of the
  repository; the model keeps what the programs hand to it.
\<close>

section \<open>JavaScript values read from the settings\<close>

text \<open>
  The plugin reads its configuration from a settings object
  \<^verbatim>\<open>{ [id: string]: any }\<close>. The host stores a string or a boolean under a
  setting name, and a name that is absent reads as \<^verbatim>\<open>undefined\<close>. The casts
  \<^verbatim>\<open>as string\<close> and \<^verbatim>\<open>as boolean\<close> of the source do nothing at run time, so the
  model keeps the run-time value and writes out what JavaScript does with it.
  A string is a list of 8-bit characters; a character stands for the code unit
  of the same number.
\<close>

datatype jsval = JUndefined | JBool bool | JStr string

datatype error = TypeError

type_synonym settings = "string \<Rightarrow> jsval"

text \<open>An object literal: the listed names are present, the others read as undefined.\<close>

definition settings_of :: "(string \<times> jsval) list \<Rightarrow> settings" where
  "settings_of kvs k = (case map_of kvs k of Some v \<Rightarrow> v | None \<Rightarrow> JUndefined)"

text \<open>\<^verbatim>\<open>!v\<close> is the negation of \<open>truthy v\<close>; \<^verbatim>\<open>a || b\<close> is \<open>js_or a b\<close>.\<close>

fun truthy :: "jsval \<Rightarrow> bool" where
  "truthy JUndefined = False"
| "truthy (JBool b) = b"
| "truthy (JStr s) = (s \<noteq> [])"

definition js_or :: "jsval \<Rightarrow> jsval \<Rightarrow> jsval" where
  "js_or a b = (if truthy a then a else b)"

text \<open>The string a value becomes inside a template literal.\<close>

fun to_str :: "jsval \<Rightarrow> string" where
  "to_str JUndefined = ''undefined''"
| "to_str (JBool b) = (if b then ''true'' else ''false'')"
| "to_str (JStr s) = s"

section \<open>parseOptionsString\<close>

text \<open>
  \<^verbatim>\<open>
  function parseOptionsString (optionsStr: string): string[] {
    if (!optionsStr) return []
    return optionsStr.match(/([^\s"']+|"([^"]*)"|'([^']*)')+/g) || []
  }
  \<close>
  The class \<^verbatim>\<open>\s\<close> among the 8-bit characters: tab, line feed, vertical tab,
  form feed, carriage return, space and no-break space.
\<close>

definition dquote :: char where
  "dquote = CHR 0x22"

definition squote :: char where
  "squote = CHR 0x27"

definition is_space :: "char \<Rightarrow> bool" where
  "is_space c =
     (c \<in> set [CHR 0x09, CHR 0x0A, CHR 0x0B, CHR 0x0C, CHR 0x0D, CHR 0x20, CHR 0xA0])"

text \<open>The class \<^verbatim>\<open>[^\s"']\<close>.\<close>

definition is_plain :: "char \<Rightarrow> bool" where
  "is_plain c = (\<not> is_space c \<and> c \<noteq> dquote \<and> c \<noteq> squote)"

text \<open>
  After an opening quote \<open>q\<close>: the characters up to the next \<open>q\<close>, and what
  follows that \<open>q\<close>; nothing when no \<open>q\<close> follows.
\<close>

fun quoted :: "char \<Rightarrow> string \<Rightarrow> (string \<times> string) option" where
  "quoted q [] = None"
| "quoted q (c # cs) =
     (if c = q then Some ([], cs)
      else map_option (\<lambda>(m, r). (c # m, r)) (quoted q cs))"

text \<open>
  One alternative of the group at the head of the input, in the order of the
  regular expression: a longest run of plain characters, a double-quoted part,
  a single-quoted part. The result is the matched text and the rest.
\<close>

definition match_alt :: "string \<Rightarrow> (string \<times> string) option" where
  "match_alt s =
     (case s of
        [] \<Rightarrow> None
      | c # cs \<Rightarrow>
          if is_plain c then Some (takeWhile is_plain s, dropWhile is_plain s)
          else if c = dquote
            then map_option (\<lambda>(m, r). (dquote # m @ [dquote], r)) (quoted dquote cs)
          else if c = squote
            then map_option (\<lambda>(m, r). (squote # m @ [squote], r)) (quoted squote cs)
          else None)"

lemma quoted_shorter: "quoted q s = Some (m, r) \<Longrightarrow> length r < length s"
  by (induction s arbitrary: m) (auto split: if_splits)

lemma match_alt_shorter: "match_alt s = Some (m, r) \<Longrightarrow> length r < length s"
  by (cases s)
    (auto simp: match_alt_def split: if_splits dest!: quoted_shorter
      intro: le_imp_less_Suc length_dropWhile_le)

text \<open>The group repeated greedily, \<^verbatim>\<open>( ... )+\<close>: one alternative, then as many more as match.\<close>

function match_plus :: "string \<Rightarrow> (string \<times> string) option" where
  "match_plus s =
     (case match_alt s of
        None \<Rightarrow> None
      | Some (m, r) \<Rightarrow>
          (case match_plus r of
             None \<Rightarrow> Some (m, r)
           | Some (m', r') \<Rightarrow> Some (m @ m', r')))"
  by pat_completeness auto
termination
  by (relation "measure length") (auto dest: match_alt_shorter)

lemma match_plus_shorter: "match_plus s = Some (m, r) \<Longrightarrow> length r < length s"
proof (induction s arbitrary: m r rule: match_plus.induct)
  case (1 s)
  from "1.prems" obtain m1 r1 where alt: "match_alt s = Some (m1, r1)"
    by (subst (asm) match_plus.simps) (auto split: option.splits)
  have r1: "length r1 < length s"
    using alt by (rule match_alt_shorter)
  show ?case
  proof (cases "match_plus r1")
    case None
    with alt "1.prems" have "r = r1"
      by (subst (asm) match_plus.simps) simp
    with r1 show ?thesis by simp
  next
    case (Some p)
    obtain m2 r2 where p: "p = (m2, r2)" by (cases p)
    from alt Some p "1.prems" have "r = r2"
      by (subst (asm) match_plus.simps) simp
    moreover have "length r2 < length r1"
      using "1.IH" [OF alt refl] Some p by simp
    ultimately show ?thesis using r1 by simp
  qed
qed

text \<open>
  The flag \<^verbatim>\<open>g\<close>: every match from left to right. A match is never empty, the
  search goes on behind it; where nothing matches, it goes on one character
  further.
\<close>

function match_all :: "string \<Rightarrow> string list" where
  "match_all s =
     (if s = [] then []
      else case match_plus s of
             Some (m, r) \<Rightarrow> m # match_all r
           | None \<Rightarrow> match_all (tl s))"
  by pat_completeness auto
termination
proof (relation "measure length")
  show "wf (measure length)" by simp
next
  fix s :: string and x2 and m r
  assume "s \<noteq> []" "match_plus s = Some x2" "(m, r) = x2"
  then show "(r, s) \<in> measure length"
    using match_plus_shorter [of s m r] by simp
next
  fix s :: string
  assume "s \<noteq> []"
  then show "(tl s, s) \<in> measure length"
    by (cases s) simp_all
qed

declare match_plus.simps [simp del] match_all.simps [simp del]

lemma match_all_Nil [simp]: "match_all [] = []"
  by (simp add: match_all.simps)

text \<open>
  A value that is truthy and not a string has no method \<^verbatim>\<open>match\<close>: the call
  throws a TypeError. \<^verbatim>\<open>match\<close> gives \<^verbatim>\<open>null\<close> when nothing matches, and
  \<^verbatim>\<open>|| []\<close> turns that into the empty array.
\<close>

definition parseOptionsString :: "jsval \<Rightarrow> error + string list" where
  "parseOptionsString optionsStr =
     (if \<not> truthy optionsStr then Inr []
      else case optionsStr of
             JStr s \<Rightarrow> Inr (match_all s)
           | _ \<Rightarrow> Inl TypeError)"

section \<open>Numbers\<close>

text \<open>
  \<^verbatim>\<open>parseInt(v, 10)\<close>: the value as a string, leading white space skipped, an
  optional sign, then the longest run of decimal digits; \<^verbatim>\<open>NaN\<close> (here \<open>None\<close>)
  when there is no digit. \<^verbatim>\<open>n.toString()\<close> is the decimal rendering. The
  numbers of the model are integers: it agrees with JavaScript below \<open>2 ^ 53\<close>,
  where every integer is a double.
\<close>

definition is_digit :: "char \<Rightarrow> bool" where
  "is_digit c = (c \<in> set ''0123456789'')"

definition digit_val :: "char \<Rightarrow> nat" where
  "digit_val c = of_char c - 48"

definition digits_val :: "string \<Rightarrow> nat" where
  "digits_val ds = foldl (\<lambda>a c. 10 * a + digit_val c) 0 ds"

definition parseInt10 :: "jsval \<Rightarrow> int option" where
  "parseInt10 v =
     (let s = dropWhile is_space (to_str v);
          neg = (case s of c # _ \<Rightarrow> c = CHR ''-'' | [] \<Rightarrow> False);
          s' = (case s of c # cs \<Rightarrow> if c = CHR ''-'' \<or> c = CHR ''+'' then cs else s | [] \<Rightarrow> []);
          z = takeWhile is_digit s'
      in if z = [] then None
         else Some (if neg then - int (digits_val z) else int (digits_val z)))"

function show_nat :: "nat \<Rightarrow> string" where
  "show_nat n =
     (if n < 10 then [''0123456789'' ! n]
      else show_nat (n div 10) @ [''0123456789'' ! (n mod 10)])"
  by pat_completeness auto
termination
  by (relation "measure id") auto

declare show_nat.simps [simp del]

definition number_toString :: "int \<Rightarrow> string" where
  "number_toString n = (if n < 0 then CHR ''-'' # show_nat (nat (- n)) else show_nat (nat n))"

section \<open>Text replacement\<close>

text \<open>
  \<^verbatim>\<open>s.replace(/pat/g, rep)\<close> for a pattern of literal characters that is not
  empty, and a replacement without \<^verbatim>\<open>$\<close>: from left to right, every occurrence
  of \<open>pat\<close> becomes \<open>rep\<close>, and the search goes on behind the occurrence.
\<close>

function replace_all :: "string \<Rightarrow> string \<Rightarrow> string \<Rightarrow> string" where
  "replace_all pat rep [] = []"
| "replace_all pat rep (c # cs) =
     (if pat \<noteq> [] \<and> take (length pat) (c # cs) = pat
      then rep @ replace_all pat rep (drop (length pat) (c # cs))
      else c # replace_all pat rep cs)"
  by pat_completeness auto
termination
  by (relation "measure (\<lambda>(pat, rep, s). length s)") auto

text \<open>\<^verbatim>\<open>s.trim()\<close> removes the white space at both ends.\<close>

definition trim :: "string \<Rightarrow> string" where
  "trim s = rev (dropWhile is_space (rev (dropWhile is_space s)))"

section \<open>The host's transcoding manager and logger\<close>

text \<open>
  The transcoding manager and the logger are objects of the host. The plugin
  only calls them, so their state is what the plugin has handed over, in the
  order of the calls: the profiles added with \<^verbatim>\<open>addVODProfile\<close>, the priorities
  added with \<^verbatim>\<open>addVODEncoderPriority\<close>, the lines logged. A profile is added with
  a builder function; \<open>'b\<close> is what the model keeps of the builder.
  \<^verbatim>\<open>removeAllProfilesAndEncoderPriorities\<close> forgets the profiles and the
  priorities of the plugin.
\<close>

datatype stream_type = Video | Audio

record 'a encoder_options =
  inputOptions :: "'a list"
  outputOptions :: "'a list"

record 'b vod_profile =
  encoder :: jsval
  profile :: string
  builder :: 'b

record encoder_priority =
  streamType :: stream_type
  encoderName :: jsval
  priority :: int

record 'b transcoding_manager =
  profiles :: "'b vod_profile list"
  priorities :: "encoder_priority list"

definition addVODProfile ::
  "jsval \<Rightarrow> string \<Rightarrow> 'b \<Rightarrow> 'b transcoding_manager \<Rightarrow> 'b transcoding_manager" where
  "addVODProfile enc name b m =
     m\<lparr>profiles := profiles m @ [\<lparr>encoder = enc, profile = name, builder = b\<rparr>]\<rparr>"

definition addVODEncoderPriority ::
  "stream_type \<Rightarrow> jsval \<Rightarrow> int \<Rightarrow> 'b transcoding_manager \<Rightarrow> 'b transcoding_manager" where
  "addVODEncoderPriority k enc p m =
     m\<lparr>priorities := priorities m @ [\<lparr>streamType = k, encoderName = enc, priority = p\<rparr>]\<rparr>"

definition removeAllProfilesAndEncoderPriorities ::
  "'b transcoding_manager \<Rightarrow> 'b transcoding_manager" where
  "removeAllProfilesAndEncoderPriorities m = m\<lparr>profiles := [], priorities := []\<rparr>"

datatype log_level = Info | Warn

type_synonym log = "(log_level \<times> string) list"

section \<open>The live-reload variant: updateTranscodingProfiles and unregister\<close>

text \<open>
  The builders of this variant are closures over values computed before the
  call of \<^verbatim>\<open>addVODProfile\<close>; the model keeps what the closure returns when the
  host calls it. The audio builder calls \<^verbatim>\<open>parseOptionsString\<close> itself, so it
  can throw then.
\<close>

type_synonym built = "error + string encoder_options"

record plugin_context =
  transcodingManager :: "built transcoding_manager option"
  settingsManager :: "(string list \<Rightarrow> settings) option"
  logger :: "log option"
  settingNames :: "string list"

definition pluginContext :: plugin_context where
  "pluginContext =
     \<lparr>transcodingManager = None, settingsManager = None, logger = None, settingNames = []\<rparr>"

text \<open>The two objects the loop writes to.\<close>

record run_state =
  tm :: "built transcoding_manager"
  lg :: log

definition info :: "string \<Rightarrow> run_state \<Rightarrow> run_state" where
  "info msg st = st\<lparr>lg := lg st @ [(Info, msg)]\<rparr>"

definition warn :: "string \<Rightarrow> run_state \<Rightarrow> run_state" where
  "warn msg st = st\<lparr>lg := lg st @ [(Warn, msg)]\<rparr>"

definition resolutions :: "string list" where
  "resolutions = [''144p'', ''240p'', ''360p'', ''480p'', ''720p'', ''1080p'', ''1440p'', ''2160p'']"

text \<open>The setting name \<^verbatim>\<open>`resolution_${res}_${field}`\<close>.\<close>

definition key :: "string \<Rightarrow> string \<Rightarrow> string" where
  "key res field = ''resolution_'' @ res @ ''_'' @ field"

text \<open>The three values read before the loop (lines 38 to 40).\<close>

definition audioCodec :: "settings \<Rightarrow> jsval" where
  "audioCodec s = js_or (s ''audio_codec'') (JStr ''aac'')"

definition audioParams :: "settings \<Rightarrow> jsval" where
  "audioParams s = js_or (s ''audio_params'') (JStr ''-b:a 128k'')"

definition transcodeThreads :: "settings \<Rightarrow> int" where
  "transcodeThreads s = (case parseInt10 (s ''transcode_threads'') of None \<Rightarrow> 0 | Some n \<Rightarrow> n)"

definition threadParams :: "int \<Rightarrow> string list" where
  "threadParams n = (if n > 0 then [''-threads'', number_toString n] else [])"

definition profileName :: "string \<Rightarrow> jsval \<Rightarrow> string" where
  "profileName res videoCodec =
     ''custom-'' @ res @ ''-'' @ to_str (js_or videoCodec (JStr ''default''))"

text \<open>
  One pass of the loop over the resolutions (lines 45 to 78). The result is
  the state behind the pass and the error thrown in it, if any. The two calls
  of \<^verbatim>\<open>parseOptionsString\<close> come before every write of the pass.
\<close>

definition loop_body :: "settings \<Rightarrow> string \<Rightarrow> run_state \<Rightarrow> run_state \<times> error option" where
  "loop_body s res st =
     (let isEnabled = s (key res ''enabled'') in
      if \<not> truthy isEnabled
      then (info (''Resolution '' @ res @ '' is disabled, skipping.'') st, None)
      else
        let videoCodec = s (key res ''codec'');
            inputParamsStr = js_or (s (key res ''input_params'')) (JStr '''');
            codecParamsStr = js_or (s (key res ''codec_params'')) (JStr '''')
        in
          if \<not> truthy videoCodec
          then (warn (''Video codec for resolution '' @ res @ '' is not defined. Skipping.'') st,
                None)
          else
            case parseOptionsString inputParamsStr of
              Inl e \<Rightarrow> (st, Some e)
            | Inr inputParams \<Rightarrow>
                (case parseOptionsString codecParamsStr of
                   Inl e \<Rightarrow> (st, Some e)
                 | Inr codecParams \<Rightarrow>
                     (info (''Registered profile '' @ [squote] @ profileName res videoCodec
                              @ [squote] @ '' for '' @ res @ '' with video codec '' @ [squote]
                              @ to_str videoCodec @ [squote] @ ''.'')
                        (st\<lparr>tm :=
                           addVODEncoderPriority Audio (audioCodec s) 2000
                             (addVODEncoderPriority Video videoCodec 2000
                               (addVODProfile (audioCodec s) (profileName res videoCodec)
                                  (case parseOptionsString (audioParams s) of
                                     Inl e \<Rightarrow> Inl e
                                   | Inr ps \<Rightarrow> Inr \<lparr>inputOptions = [], outputOptions = ps\<rparr>)
                                 (addVODProfile videoCodec (profileName res videoCodec)
                                    (Inr \<lparr>inputOptions =
                                            threadParams (transcodeThreads s) @ inputParams,
                                          outputOptions = codecParams\<rparr>)
                                    (tm st))))\<rparr>),
                      None)))"

fun resolution_loop :: "settings \<Rightarrow> string list \<Rightarrow> run_state \<Rightarrow> run_state \<times> error option" where
  "resolution_loop s [] st = (st, None)"
| "resolution_loop s (res # rest) st =
     (case loop_body s res st of
        (st', None) \<Rightarrow> resolution_loop s rest st'
      | (st', Some e) \<Rightarrow> (st', Some e))"

text \<open>
  \<^verbatim>\<open>updateTranscodingProfiles(initialSettings?)\<close>. Without an argument the
  settings are fetched from the settings manager, which the model takes as a
  function of the names asked for. The result is the context behind the call
  and the error it threw, if any.
\<close>

definition updateTranscodingProfiles ::
  "settings option \<Rightarrow> plugin_context \<Rightarrow> plugin_context \<times> error option" where
  "updateTranscodingProfiles initialSettings ctx =
     (case (transcodingManager ctx, logger ctx, settingsManager ctx) of
        (Some m, Some l, Some getSettings) \<Rightarrow>
          (let s = (case initialSettings of
                      Some s0 \<Rightarrow> s0
                    | None \<Rightarrow> getSettings (settingNames ctx));
               st0 = info ''Updating transcoding profiles based on new settings...''
                       \<lparr>tm = removeAllProfilesAndEncoderPriorities m, lg = l\<rparr>;
               (st, r) = resolution_loop s resolutions st0
           in (ctx\<lparr>transcodingManager := Some (tm st), logger := Some (lg st)\<rparr>, r))
      | _ \<Rightarrow> (ctx, None))"

definition unregister :: "plugin_context \<Rightarrow> plugin_context" where
  "unregister ctx =
     (case (transcodingManager ctx, logger ctx) of
        (Some m, Some l) \<Rightarrow>
          ctx\<lparr>transcodingManager := Some (removeAllProfilesAndEncoderPriorities m),
              logger := Some (l @ [(Info, ''All custom transcoding profiles have been unregistered.'')])\<rparr>
      | _ \<Rightarrow> ctx)"

text \<open>
  \<^verbatim>\<open>register(options)\<close> (lines 84 to 179) first stores the transcoding manager,
  the logger and the settings manager of the host in the context, three
  assignments in a row, and logs a line. It then hands its settings to the
  host with \<^verbatim>\<open>registerSetting\<close>, stores their names, hands a listener to
  \<^verbatim>\<open>onSettingsChange\<close> that calls \<^verbatim>\<open>updateTranscodingProfiles\<close> with the changed
  settings, and calls \<^verbatim>\<open>updateTranscodingProfiles\<close> without an argument. The
  three objects of \<^verbatim>\<open>RegisterServerOptions\<close> are never null. What the host does
  with the settings and with the listener is not part of the model.
\<close>

record register_options =
  transcodingManager_opt :: "built transcoding_manager"
  settingsManager_opt :: "string list \<Rightarrow> settings"
  logger_opt :: log

definition registered_settingNames :: "string list" where
  "registered_settingNames =
     [''audio_codec'', ''audio_params'', ''transcode_threads'']
     @ concat (map (\<lambda>res. [key res ''enabled'', key res ''codec'', key res ''input_params'',
                             key res ''codec_params''])
                resolutions)"

definition register :: "register_options \<Rightarrow> plugin_context \<Rightarrow> plugin_context \<times> error option" where
  "register options ctx =
     updateTranscodingProfiles None
       (ctx\<lparr>transcodingManager := Some (transcodingManager_opt options),
            logger := Some (logger_opt options
                            @ [(Info, ''Registering Universal Transcoder Plugin...'')]),
            settingsManager := Some (settingsManager_opt options),
            settingNames := registered_settingNames\<rparr>)"

text \<open>
  The context is private to the module, which exports \<^verbatim>\<open>register\<close> and
  \<^verbatim>\<open>unregister\<close>; \<^verbatim>\<open>updateTranscodingProfiles\<close> runs inside \<^verbatim>\<open>register\<close> and
  when the listener fires. So the contexts the program can be in are those
  reached from the initial one by these three functions.
\<close>

inductive reachable :: "plugin_context \<Rightarrow> bool" where
  initial: "reachable pluginContext"
| registered: "reachable ctx \<Longrightarrow> reachable (fst (register options ctx))"
| updated: "reachable ctx \<Longrightarrow> reachable (fst (updateTranscodingProfiles init ctx))"
| unregistered: "reachable ctx \<Longrightarrow> reachable (unregister ctx)"

section \<open>The hook variant: one argument string for each profile\<close>

text \<open>
  The first program of \<^verbatim>\<open>main.ts\<close> rewrites the profiles the host passes to its
  transcoding hook. \<^verbatim>\<open>config\<close> has the type the source declares for it; the
  values of \<^verbatim>\<open>settings.get\<close> are cast only.
\<close>

record resolution =
  id_res :: int
  width :: int
  height :: int

record hook_profile =
  resolution :: resolution
  arguments :: string

record transcode_config =
  audio_codec :: string
  audio_params :: string
  transcode_threads :: int

text \<open>
  Lines 134 to 136: the two replacements, made when the filters are truthy. A
  truthy value that is not a string has no method \<^verbatim>\<open>replace\<close>.
\<close>

definition resolve_outputFilters :: "jsval \<Rightarrow> int \<Rightarrow> int \<Rightarrow> error + jsval" where
  "resolve_outputFilters outputFilters resolutionWidth resolutionHeight =
     (if truthy outputFilters
      then case outputFilters of
             JStr f \<Rightarrow>
               Inr (JStr (replace_all ''%h'' (number_toString resolutionHeight)
                           (replace_all ''%w'' (number_toString resolutionWidth) f)))
           | _ \<Rightarrow> Inl TypeError
      else Inr outputFilters)"

text \<open>
  The function mapped over the profiles (lines 116 to 158): the lines it logs,
  and \<open>None\<close> for \<^verbatim>\<open>null\<close>, the profile with its new arguments, or the error
  thrown.
\<close>

definition transform_profile ::
  "settings \<Rightarrow> transcode_config \<Rightarrow> hook_profile \<Rightarrow> log \<times> (error + hook_profile option)" where
  "transform_profile get config p =
     (let resolutionId = number_toString (id_res (resolution p)) @ ''p'';
          isEnabled = get (key resolutionId ''enabled'');
          videoCodec = get (key resolutionId ''codec'');
          inputParams = get (key resolutionId ''input_params'');
          codecParams = get (key resolutionId ''codec_params'')
      in
        if \<not> truthy isEnabled
        then ([(Info, ''Resolution '' @ resolutionId @ '' disabled, skipping.'')], Inr None)
        else
          case resolve_outputFilters (get (key resolutionId ''output_filters''))
                 (width (resolution p)) (height (resolution p)) of
            Inl e \<Rightarrow> ([], Inl e)
          | Inr outputFilters \<Rightarrow>
              (let finalArguments =
                     (if transcode_threads config > 0
                      then ''-threads '' @ number_toString (transcode_threads config) @ '' ''
                      else '''')
                     @ to_str inputParams @ '' -c:v '' @ to_str videoCodec @ '' ''
                     @ to_str codecParams @ '' '' @ to_str outputFilters @ '' -c:a ''
                     @ audio_codec config @ '' '' @ audio_params config
               in ([(Info, ''Generated arguments for '' @ resolutionId @ '': '' @ finalArguments)],
                   Inr (Some (p\<lparr>arguments := trim finalArguments\<rparr>)))))"

text \<open>\<^verbatim>\<open>options.profiles.map(...).filter(Boolean)\<close>: the profiles that are not \<^verbatim>\<open>null\<close>.\<close>

fun transform_profiles ::
  "settings \<Rightarrow> transcode_config \<Rightarrow> hook_profile list \<Rightarrow> log \<times> (error + hook_profile list)" where
  "transform_profiles get config [] = ([], Inr [])"
| "transform_profiles get config (p # ps) =
     (case transform_profile get config p of
        (l, Inl e) \<Rightarrow> (l, Inl e)
      | (l, Inr r) \<Rightarrow>
          (case transform_profiles get config ps of
             (l', Inl e) \<Rightarrow> (l @ l', Inl e)
           | (l', Inr rs) \<Rightarrow>
               (l @ l', Inr (case r of None \<Rightarrow> rs | Some q \<Rightarrow> q # rs))))"

section \<open>The single-profile variant\<close>

text \<open>
  The second program of \<^verbatim>\<open>main.ts\<close> registers one audio and one video builder
  under the profile name \<^verbatim>\<open>human-transcoding\<close>. The builders read the settings
  when the host calls them. The video builder puts the value of the codec
  setting into its array as it is, so its options are values.
\<close>

definition PROFILE_NAME :: string where
  "PROFILE_NAME = ''human-transcoding''"

definition audio_builder :: "(string list \<Rightarrow> settings) \<Rightarrow> error + jsval encoder_options" where
  "audio_builder getSettings =
     (let s = getSettings [''audio_params''] in
      case parseOptionsString (s ''audio_params'') of
        Inl e \<Rightarrow> Inl e
      | Inr ps \<Rightarrow> Inr \<lparr>inputOptions = [], outputOptions = map JStr ps\<rparr>)"

definition video_builder ::
  "(string list \<Rightarrow> settings) \<Rightarrow> int \<Rightarrow> log \<times> (error + jsval encoder_options)" where
  "video_builder getSettings resolutionHeight =
     (let resKey = number_toString resolutionHeight @ ''p'';
          s = getSettings [key resKey ''codec'', key resKey ''input_params'',
                           key resKey ''codec_params''];
          codec = s (key resKey ''codec'')
      in
        case parseOptionsString (s (key resKey ''input_params'')) of
          Inl e \<Rightarrow> ([], Inl e)
        | Inr inputParams \<Rightarrow>
            (case parseOptionsString (s (key resKey ''codec_params'')) of
               Inl e \<Rightarrow> ([], Inl e)
             | Inr codecParams \<Rightarrow>
                 if \<not> truthy codec
                 then ([(Warn, [squote] @ PROFILE_NAME @ [squote] @ '' is active for '' @ resKey
                               @ '', but no codec is configured. Using fallback.'')],
                       Inr \<lparr>inputOptions = [],
                            outputOptions = map JStr [''-c:v'', ''libx264'', ''-crf'', ''23'']\<rparr>)
                 else ([(Info, ''Building '' @ [squote] @ PROFILE_NAME @ [squote] @ '' for ''
                               @ resKey @ '' with '' @ to_str codec @ '' codec.'')],
                       Inr \<lparr>inputOptions = map JStr inputParams,
                            outputOptions = JStr ''-c:v'' # codec # map JStr codecParams\<rparr>)))"

text \<open>
  What \<^verbatim>\<open>register\<close> of this program hands to the transcoding manager (lines 265
  to 305); the builders are kept by name.
\<close>

datatype builder_name = AudioBuilder | VideoBuilder

definition register_profiles ::
  "builder_name transcoding_manager \<Rightarrow> builder_name transcoding_manager" where
  "register_profiles m =
     addVODEncoderPriority Video (JStr ''placeholder-video-codec'') 2000
       (addVODEncoderPriority Audio (JStr ''aac'') 2000
         (addVODProfile (JStr ''placeholder-video-codec'') PROFILE_NAME VideoBuilder
           (addVODProfile (JStr ''aac'') PROFILE_NAME AudioBuilder m)))"

section \<open>Notions for stating the properties\<close>

text \<open>
  The substitution as the specification words it: one pass from left to
  right in which every \<^verbatim>\<open>%w\<close> becomes \<open>W\<close>, every \<^verbatim>\<open>%h\<close> becomes \<open>H\<close>, and
  every other character is copied.
\<close>

fun substitute_placeholders :: "string \<Rightarrow> string \<Rightarrow> string \<Rightarrow> string" where
  "substitute_placeholders W H [] = []"
| "substitute_placeholders W H [c] = [c]"
| "substitute_placeholders W H (c # d # r) =
     (if c = CHR ''%'' \<and> d = CHR ''w'' then W @ substitute_placeholders W H r
      else if c = CHR ''%'' \<and> d = CHR ''h'' then H @ substitute_placeholders W H r
      else c # substitute_placeholders W H (d # r))"

text \<open>
  A context is populated when its three references are set, and unpopulated
  when all three are null.
\<close>

definition populated :: "plugin_context \<Rightarrow> bool" where
  "populated ctx =
     (transcodingManager ctx \<noteq> None \<and> logger ctx \<noteq> None \<and> settingsManager ctx \<noteq> None)"

definition unpopulated :: "plugin_context \<Rightarrow> bool" where
  "unpopulated ctx =
     (transcodingManager ctx = None \<and> logger ctx = None \<and> settingsManager ctx = None)"

text \<open>
  A tier is active in a run of \<^verbatim>\<open>updateTranscodingProfiles\<close> when its
  \<^verbatim>\<open>enabled\<close> setting and its \<^verbatim>\<open>codec\<close> setting are both truthy. What a pass
  of the loop adds to the transcoding manager is written \<open>tier_profiles\<close>
  and \<open>tier_priorities\<close>.
\<close>

definition active :: "settings \<Rightarrow> string \<Rightarrow> bool" where
  "active s res = (truthy (s (key res ''enabled'')) \<and> truthy (s (key res ''codec'')))"

definition tier_profiles :: "settings \<Rightarrow> string \<Rightarrow> built vod_profile list" where
  "tier_profiles s res =
     (if active s res
      then case parseOptionsString (js_or (s (key res ''input_params'')) (JStr '''')) of
             Inl e \<Rightarrow> []
           | Inr ip \<Rightarrow>
               (case parseOptionsString (js_or (s (key res ''codec_params'')) (JStr '''')) of
                  Inl e \<Rightarrow> []
                | Inr cp \<Rightarrow>
                    [\<lparr>encoder = s (key res ''codec''),
                      profile = profileName res (s (key res ''codec'')),
                      builder = Inr \<lparr>inputOptions = threadParams (transcodeThreads s) @ ip,
                                     outputOptions = cp\<rparr>\<rparr>,
                     \<lparr>encoder = audioCodec s,
                      profile = profileName res (s (key res ''codec'')),
                      builder = (case parseOptionsString (audioParams s) of
                                   Inl e \<Rightarrow> Inl e
                                 | Inr ps \<Rightarrow> Inr \<lparr>inputOptions = [], outputOptions = ps\<rparr>)\<rparr>])
      else [])"

definition tier_priorities :: "settings \<Rightarrow> string \<Rightarrow> encoder_priority list" where
  "tier_priorities s res =
     (if active s res
      then case parseOptionsString (js_or (s (key res ''input_params'')) (JStr '''')) of
             Inl e \<Rightarrow> []
           | Inr ip \<Rightarrow>
               (case parseOptionsString (js_or (s (key res ''codec_params'')) (JStr '''')) of
                  Inl e \<Rightarrow> []
                | Inr cp \<Rightarrow>
                    [\<lparr>streamType = Video, encoderName = s (key res ''codec''), priority = 2000\<rparr>,
                     \<lparr>streamType = Audio, encoderName = audioCodec s, priority = 2000\<rparr>])
      else [])"

section \<open>Concrete settings\<close>

text \<open>
  The scenario of the specification: audio \<^verbatim>\<open>aac\<close> with \<^verbatim>\<open>-b:a 128k\<close>, the tier
  1080p enabled with \<^verbatim>\<open>libx264\<close> and \<^verbatim>\<open>-crf 23 -preset veryfast\<close>, the tier 144p
  disabled; here with two threads and an input parameter as well.
\<close>

definition scenario_settings :: settings where
  "scenario_settings = settings_of
     [(''audio_codec'', JStr ''aac''),
      (''audio_params'', JStr ''-b:a 128k''),
      (''transcode_threads'', JStr ''2''),
      (''resolution_144p_enabled'', JBool False),
      (''resolution_144p_codec'', JStr ''libx264''),
      (''resolution_1080p_enabled'', JBool True),
      (''resolution_1080p_codec'', JStr ''libx264''),
      (''resolution_1080p_input_params'', JStr ''-hwaccel auto''),
      (''resolution_1080p_codec_params'', JStr ''-crf 23 -preset veryfast'')]"

text \<open>The tiers 720p and 1080p enabled, both with \<^verbatim>\<open>libx264\<close>; every other setting absent.\<close>

definition shared_codec_settings :: settings where
  "shared_codec_settings = settings_of
     [(''resolution_720p_enabled'', JBool True),
      (''resolution_720p_codec'', JStr ''libx264''),
      (''resolution_1080p_enabled'', JBool True),
      (''resolution_1080p_codec'', JStr ''libx264'')]"

text \<open>The tier 144p enabled with an empty codec; every other setting absent.\<close>

definition empty_codec_settings :: settings where
  "empty_codec_settings = settings_of
     [(''resolution_144p_enabled'', JBool True),
      (''resolution_144p_codec'', JStr '''')]"

text \<open>A transcoding manager that holds a profile and a priority of an earlier run.\<close>

definition earlier_table :: "built transcoding_manager" where
  "earlier_table =
     \<lparr>profiles = [\<lparr>encoder = JStr ''libvpx'', profile = ''custom-360p-libvpx'',
                   builder = Inr \<lparr>inputOptions = [], outputOptions = [''-crf'', ''30'']\<rparr>\<rparr>],
      priorities = [\<lparr>streamType = Video, encoderName = JStr ''libvpx'', priority = 2000\<rparr>]\<rparr>"

text \<open>The context after registration, with a settings manager that returns \<open>s\<close>.\<close>

definition registered_context :: "settings \<Rightarrow> plugin_context" where
  "registered_context s =
     \<lparr>transcodingManager = Some earlier_table, settingsManager = Some (\<lambda>names. s),
      logger = Some [], settingNames = []\<rparr>"

section \<open>The options as the specification words them\<close>

text \<open>
  The \<open>outputOptions\<close> of a video profile in the words of the specification:
  the thread flag when the thread count is positive, the pair that selects the
  video codec, the tokens of the codec parameters, the tokens of the output
  filters with the placeholders resolved. For an audio profile: the pair that
  selects the audio codec and the tokens of the audio parameters. The tokens
  are taken with the tokenizer of the source.
\<close>

definition claimed_video_outputOptions ::
  "int \<Rightarrow> string \<Rightarrow> string \<Rightarrow> string \<Rightarrow> int \<Rightarrow> int \<Rightarrow> string list" where
  "claimed_video_outputOptions threadCount codec params filters w h =
     (if threadCount > 0 then [''-threads'', number_toString threadCount] else [])
     @ [''-c:v'', codec] @ match_all params
     @ match_all (substitute_placeholders (number_toString w) (number_toString h) filters)"

definition claimed_audio_outputOptions :: "string \<Rightarrow> string \<Rightarrow> string list" where
  "claimed_audio_outputOptions codec params = [''-c:a'', codec] @ match_all params"

section \<open>The tokenizer on white space\<close>

lemma match_alt_space: "is_space c \<Longrightarrow> match_alt (c # cs) = None"
  by (auto simp: match_alt_def is_plain_def is_space_def dquote_def squote_def)

lemma match_all_spaces: "\<forall>c \<in> set s. is_space c \<Longrightarrow> match_all s = []"
proof (induction s)
  case Nil
  then show ?case by simp
next
  case (Cons c cs)
  then have "match_plus (c # cs) = None"
    by (subst match_plus.simps) (simp add: match_alt_space)
  then have "match_all (c # cs) = match_all cs"
    by (subst match_all.simps) simp
  with Cons show ?case by simp
qed

section \<open>The decimal rendering and the two replacements\<close>

lemma show_nat_chars: "set (show_nat n) \<subseteq> set ''0123456789''"
proof (induction n rule: show_nat.induct)
  case (1 n)
  have d: "''0123456789'' ! k \<in> set ''0123456789''" if "k < 10" for k
    using that by (intro nth_mem) simp
  show ?case
  proof (cases "n < 10")
    case True
    then show ?thesis using d [of n] by (subst show_nat.simps) simp
  next
    case False
    then show ?thesis using "1.IH" d [of "n mod 10"]
      by (subst show_nat.simps) simp
  qed
qed

lemma show_nat_nonempty: "show_nat n \<noteq> []"
  by (subst show_nat.simps) simp

lemma number_toString_nonempty: "number_toString n \<noteq> []"
  by (simp add: number_toString_def show_nat_nonempty)

lemma number_toString_chars: "set (number_toString n) \<subseteq> set ''-0123456789''"
proof (cases "n < 0")
  case True
  have "set (show_nat (nat (- n))) \<subseteq> set ''0123456789''"
    by (rule show_nat_chars)
  also have "\<dots> \<subseteq> set ''-0123456789''"
    by (rule set_subset_Cons)
  finally show ?thesis using True
    by (simp add: number_toString_def)
next
  case False
  have "set (show_nat (nat n)) \<subseteq> set ''0123456789''"
    by (rule show_nat_chars)
  also have "\<dots> \<subseteq> set ''-0123456789''"
    by (rule set_subset_Cons)
  finally show ?thesis using False
    by (simp only: number_toString_def if_False)
qed

lemma replace_all_skip:
  "CHR ''%'' \<notin> set ds \<Longrightarrow> replace_all [CHR ''%'', x] rep (ds @ s) = ds @ replace_all [CHR ''%'', x] rep s"
  by (induction ds) auto

lemma replace_w_head:
  "W \<noteq> [] \<Longrightarrow> replace_all ''%w'' W (CHR ''%'' # r) \<noteq> []
     \<and> hd (replace_all ''%w'' W (CHR ''%'' # r)) \<in> {CHR ''%'', hd W}"
  by (cases r) auto

lemma replace_h_keep:
  "X \<noteq> [] \<Longrightarrow> hd X \<noteq> CHR ''h'' \<Longrightarrow>
     replace_all ''%h'' H (c # X) = c # replace_all ''%h'' H X"
  by (cases X) auto

lemma placeholders_seq_eq:
  assumes "W \<noteq> []" "CHR ''%'' \<notin> set W" "hd W \<noteq> CHR ''h''"
  shows "replace_all ''%h'' H (replace_all ''%w'' W f) = substitute_placeholders W H f"
  using assms
proof (induction W H f rule: substitute_placeholders.induct)
  case (1 W H)
  then show ?case by simp
next
  case (2 W H c)
  then show ?case by simp
next
  case (3 W H c d r)
  note W = "3.prems"
  consider (w) "c = CHR ''%''" "d = CHR ''w''"
    | (h) "c = CHR ''%''" "d = CHR ''h''"
    | (pc) "c = CHR ''%''" "d \<noteq> CHR ''w''" "d \<noteq> CHR ''h''"
    | (other) "c \<noteq> CHR ''%''"
    by blast
  then show ?case
  proof cases
    case w
    have "replace_all ''%h'' H (replace_all ''%w'' W (c # d # r))
        = replace_all ''%h'' H (W @ replace_all ''%w'' W r)"
      using w by simp
    also have "\<dots> = W @ replace_all ''%h'' H (replace_all ''%w'' W r)"
      using W(2) by (rule replace_all_skip)
    also have "\<dots> = W @ substitute_placeholders W H r"
      using "3.IH"(1) w W by simp
    finally show ?thesis using w by simp
  next
    case h
    have "replace_all ''%h'' H (replace_all ''%w'' W (c # d # r))
        = H @ replace_all ''%h'' H (replace_all ''%w'' W r)"
      using h by simp
    then show ?thesis using "3.IH"(2) h W by simp
  next
    case pc
    let ?X = "replace_all ''%w'' W (d # r)"
    have X: "?X \<noteq> [] \<and> hd ?X \<noteq> CHR ''h''"
    proof (cases "d = CHR ''%''")
      case True
      then show ?thesis using replace_w_head [OF W(1), of r] W by auto
    next
      case False
      then show ?thesis using pc by simp
    qed
    have "replace_all ''%h'' H (replace_all ''%w'' W (c # d # r))
        = replace_all ''%h'' H (c # ?X)"
      using pc by simp
    also have "\<dots> = c # replace_all ''%h'' H ?X"
      using X by (intro replace_h_keep) blast+
    finally show ?thesis using "3.IH"(3) pc W by simp
  next
    case other
    have "replace_all ''%h'' H (replace_all ''%w'' W (c # d # r))
        = c # replace_all ''%h'' H (replace_all ''%w'' W (d # r))"
      using other by simp
    then show ?thesis using "3.IH"(3) other W by simp
  qed
qed

lemma number_toString_head: "hd (number_toString n) \<noteq> CHR ''h''"
proof -
  have "hd (number_toString n) \<in> set (number_toString n)"
    by (rule hd_in_set) (rule number_toString_nonempty)
  then have "hd (number_toString n) \<in> set ''-0123456789''"
    using number_toString_chars by blast
  then show ?thesis by auto
qed

lemma number_toString_no_percent: "CHR ''%'' \<notin> set (number_toString n)"
proof
  assume "CHR ''%'' \<in> set (number_toString n)"
  then have "CHR ''%'' \<in> set ''-0123456789''"
    using number_toString_chars by blast
  then show False by simp
qed

section \<open>What a run of the loop adds\<close>

lemma loop_body_profiles:
  "profiles (tm (fst (loop_body s res st))) = profiles (tm st) @ tier_profiles s res"
  by (simp add: loop_body_def tier_profiles_def active_def Let_def info_def warn_def
      addVODProfile_def addVODEncoderPriority_def split: sum.splits)

lemma loop_body_priorities:
  "priorities (tm (fst (loop_body s res st))) = priorities (tm st) @ tier_priorities s res"
  by (simp add: loop_body_def tier_priorities_def active_def Let_def info_def warn_def
      addVODProfile_def addVODEncoderPriority_def split: sum.splits)

lemma loop_profiles_normal:
  "snd (resolution_loop s rs st) = None \<Longrightarrow>
     profiles (tm (fst (resolution_loop s rs st)))
       = profiles (tm st) @ concat (map (tier_profiles s) rs)"
proof (induction rs arbitrary: st)
  case Nil
  then show ?case by simp
next
  case (Cons res rest)
  obtain st' r where b: "loop_body s res st = (st', r)"
    by (cases "loop_body s res st")
  show ?case
  proof (cases r)
    case None
    with b Cons.prems have "snd (resolution_loop s rest st') = None" by simp
    then have "profiles (tm (fst (resolution_loop s rest st')))
        = profiles (tm st') @ concat (map (tier_profiles s) rest)"
      by (rule Cons.IH)
    moreover have "profiles (tm st') = profiles (tm st) @ tier_profiles s res"
      using loop_body_profiles [of s res st] b by simp
    ultimately show ?thesis using b None by simp
  next
    case (Some e)
    with b Cons.prems show ?thesis by simp
  qed
qed

lemma loop_priorities_normal:
  "snd (resolution_loop s rs st) = None \<Longrightarrow>
     priorities (tm (fst (resolution_loop s rs st)))
       = priorities (tm st) @ concat (map (tier_priorities s) rs)"
proof (induction rs arbitrary: st)
  case Nil
  then show ?case by simp
next
  case (Cons res rest)
  obtain st' r where b: "loop_body s res st = (st', r)"
    by (cases "loop_body s res st")
  show ?case
  proof (cases r)
    case None
    with b Cons.prems have "snd (resolution_loop s rest st') = None" by simp
    then have "priorities (tm (fst (resolution_loop s rest st')))
        = priorities (tm st') @ concat (map (tier_priorities s) rest)"
      by (rule Cons.IH)
    moreover have "priorities (tm st') = priorities (tm st) @ tier_priorities s res"
      using loop_body_priorities [of s res st] b by simp
    ultimately show ?thesis using b None by simp
  next
    case (Some e)
    with b Cons.prems show ?thesis by simp
  qed
qed

lemma loop_profiles_subset:
  "set (profiles (tm (fst (resolution_loop s rs st))))
     \<subseteq> set (profiles (tm st)) \<union> (\<Union>res \<in> set rs. set (tier_profiles s res))"
proof (induction rs arbitrary: st)
  case Nil
  then show ?case by simp
next
  case (Cons res rest)
  obtain st' r where b: "loop_body s res st = (st', r)"
    by (cases "loop_body s res st")
  have st': "profiles (tm st') = profiles (tm st) @ tier_profiles s res"
    using loop_body_profiles [of s res st] b by simp
  show ?case
  proof (cases r)
    case None
    then have "fst (resolution_loop s (res # rest) st) = fst (resolution_loop s rest st')"
      using b by simp
    then show ?thesis using Cons.IH [of st'] st' by auto
  next
    case (Some e)
    then have "fst (resolution_loop s (res # rest) st) = st'"
      using b by simp
    then show ?thesis using st' by auto
  qed
qed

lemma loop_priorities_subset:
  "set (priorities (tm (fst (resolution_loop s rs st))))
     \<subseteq> set (priorities (tm st)) \<union> (\<Union>res \<in> set rs. set (tier_priorities s res))"
proof (induction rs arbitrary: st)
  case Nil
  then show ?case by simp
next
  case (Cons res rest)
  obtain st' r where b: "loop_body s res st = (st', r)"
    by (cases "loop_body s res st")
  have st': "priorities (tm st') = priorities (tm st) @ tier_priorities s res"
    using loop_body_priorities [of s res st] b by simp
  show ?case
  proof (cases r)
    case None
    then have "fst (resolution_loop s (res # rest) st) = fst (resolution_loop s rest st')"
      using b by simp
    then show ?thesis using Cons.IH [of st'] st' by auto
  next
    case (Some e)
    then have "fst (resolution_loop s (res # rest) st) = st'"
      using b by simp
    then show ?thesis using st' by auto
  qed
qed

lemma parse_text_returns:
  "v \<noteq> JBool True \<Longrightarrow> \<exists>ts. parseOptionsString (js_or v (JStr '''')) = Inr ts"
  by (cases v) (auto simp: parseOptionsString_def js_or_def)

lemma parse_text_string:
  "parseOptionsString (js_or (JStr x) (JStr '''')) = Inr (match_all x)"
  by (simp add: parseOptionsString_def js_or_def)

lemma loop_body_returns:
  assumes "s (key res ''input_params'') \<noteq> JBool True"
    and "s (key res ''codec_params'') \<noteq> JBool True"
  shows "snd (loop_body s res st) = None"
proof -
  obtain ip cp where
    "parseOptionsString (js_or (s (key res ''input_params'')) (JStr '''')) = Inr ip"
    "parseOptionsString (js_or (s (key res ''codec_params'')) (JStr '''')) = Inr cp"
    using parse_text_returns assms by blast
  then show ?thesis
    by (simp add: loop_body_def Let_def)
qed

lemma loop_returns:
  "\<forall>res \<in> set rs. s (key res ''input_params'') \<noteq> JBool True
       \<and> s (key res ''codec_params'') \<noteq> JBool True \<Longrightarrow>
     snd (resolution_loop s rs st) = None"
proof (induction rs arbitrary: st)
  case Nil
  then show ?case by simp
next
  case (Cons res rest)
  obtain st' r where b: "loop_body s res st = (st', r)"
    by (cases "loop_body s res st")
  have "r = None"
    using loop_body_returns [of s res st] Cons.prems b by simp
  then show ?case using b Cons by simp
qed

lemma update_populated:
  assumes "transcodingManager ctx = Some m" "logger ctx = Some l" "settingsManager ctx = Some g"
  shows "updateTranscodingProfiles init ctx =
     (let s = (case init of Some s0 \<Rightarrow> s0 | None \<Rightarrow> g (settingNames ctx));
          res = resolution_loop s resolutions
                  (info ''Updating transcoding profiles based on new settings...''
                     \<lparr>tm = removeAllProfilesAndEncoderPriorities m, lg = l\<rparr>)
      in (ctx\<lparr>transcodingManager := Some (tm (fst res)), logger := Some (lg (fst res))\<rparr>,
          snd res))"
  using assms by (simp add: updateTranscodingProfiles_def Let_def split: prod.splits)

lemma resolutions_no_dash: "res \<in> set resolutions \<Longrightarrow> CHR ''-'' \<notin> set res"
  by (auto simp: resolutions_def)

lemma profileName_inj:
  assumes "CHR ''-'' \<notin> set res" "CHR ''-'' \<notin> set res'"
    and "profileName res c = profileName res' c'"
  shows "res = res'"
proof -
  have t: "takeWhile (\<lambda>x. x \<noteq> CHR ''-'') (r @ CHR ''-'' # x) = r" if "CHR ''-'' \<notin> set r" for r x
    using that by (induction r) auto
  from assms(3) have "res @ CHR ''-'' # to_str (js_or c (JStr ''default''))
      = res' @ CHR ''-'' # to_str (js_or c' (JStr ''default''))"
    by (simp add: profileName_def)
  then have "takeWhile (\<lambda>x. x \<noteq> CHR ''-'') (res @ CHR ''-'' # to_str (js_or c (JStr ''default'')))
      = takeWhile (\<lambda>x. x \<noteq> CHR ''-'') (res' @ CHR ''-'' # to_str (js_or c' (JStr ''default'')))"
    by simp
  then show ?thesis using t assms(1,2) by simp
qed

lemma loop_body_parses:
  assumes "snd (loop_body s res st) = None" "active s res"
  shows "\<exists>ip cp. parseOptionsString (js_or (s (key res ''input_params'')) (JStr '''')) = Inr ip
           \<and> parseOptionsString (js_or (s (key res ''codec_params'')) (JStr '''')) = Inr cp"
  using assms by (simp add: loop_body_def active_def Let_def split: sum.splits)

lemma loop_normal_parses:
  "snd (resolution_loop s rs st) = None \<Longrightarrow> res \<in> set rs \<Longrightarrow> active s res \<Longrightarrow>
     \<exists>ip cp. parseOptionsString (js_or (s (key res ''input_params'')) (JStr '''')) = Inr ip
           \<and> parseOptionsString (js_or (s (key res ''codec_params'')) (JStr '''')) = Inr cp"
proof (induction rs arbitrary: st)
  case Nil
  then show ?case by simp
next
  case (Cons r rest)
  obtain st' e where b: "loop_body s r st = (st', e)"
    by (cases "loop_body s r st")
  from Cons.prems(1) b have e: "e = None"
    by (cases e) simp_all
  show ?case
  proof (cases "res = r")
    case True
    then show ?thesis using loop_body_parses [of s r st] b e Cons.prems(3) by simp
  next
    case False
    then show ?thesis using Cons b e by simp
  qed
qed

lemma tier_profiles_inactive: "\<not> active s res \<Longrightarrow> tier_profiles s res = []"
  by (simp add: tier_profiles_def)

lemma tier_priorities_inactive: "\<not> active s res \<Longrightarrow> tier_priorities s res = []"
  by (simp add: tier_priorities_def)

lemma tier_profiles_name:
  assumes "p \<in> set (tier_profiles s res)"
  shows "profile p = profileName res (s (key res ''codec'')) \<and> active s res"
proof -
  have a: "active s res"
  proof (rule ccontr)
    assume "\<not> active s res"
    then have "tier_profiles s res = []" by (rule tier_profiles_inactive)
    with assms show False by simp
  qed
  show ?thesis
  proof (cases "parseOptionsString (js_or (s (key res ''input_params'')) (JStr []))")
    case Inl
    then show ?thesis using assms a by (simp add: tier_profiles_def)
  next
    case ip: Inr
    show ?thesis
    proof (cases "parseOptionsString (js_or (s (key res ''codec_params'')) (JStr []))")
      case Inl
      then show ?thesis using assms a ip by (simp add: tier_profiles_def)
    next
      case Inr
      then show ?thesis using assms a ip by (auto simp: tier_profiles_def)
    qed
  qed
qed

lemma tier_priorities_video:
  assumes "e \<in> set (tier_priorities s res)" "streamType e = Video"
  shows "encoderName e = s (key res ''codec'') \<and> active s res"
proof -
  have a: "active s res"
  proof (rule ccontr)
    assume "\<not> active s res"
    then have "tier_priorities s res = []" by (rule tier_priorities_inactive)
    with assms show False by simp
  qed
  show ?thesis
  proof (cases "parseOptionsString (js_or (s (key res ''input_params'')) (JStr []))")
    case Inl
    then show ?thesis using assms a by (simp add: tier_priorities_def)
  next
    case ip: Inr
    show ?thesis
    proof (cases "parseOptionsString (js_or (s (key res ''codec_params'')) (JStr []))")
      case Inl
      then show ?thesis using assms a ip by (simp add: tier_priorities_def)
    next
      case Inr
      then show ?thesis using assms a ip by (auto simp: tier_priorities_def)
    qed
  qed
qed

lemma filter_tier_profiles:
  assumes "distinct rs" "res \<in> set rs" "\<forall>r \<in> set rs. CHR ''-'' \<notin> set r"
  shows "filter (\<lambda>p. profile p = profileName res (s (key res ''codec'')))
           (concat (map (tier_profiles s) rs)) = tier_profiles s res"
  using assms
proof (induction rs)
  case Nil
  then show ?case by simp
next
  case (Cons r rest)
  let ?n = "profileName res (s (key res ''codec''))"
  have other: "filter (\<lambda>p. profile p = ?n) (tier_profiles s r') = []"
    if "r' \<in> set (r # rest)" "r' \<noteq> res" for r'
  proof -
    have "profile p \<noteq> ?n" if "p \<in> set (tier_profiles s r')" for p
    proof
      assume "profile p = ?n"
      with tier_profiles_name [OF that]
      have "profileName r' (s (key r' ''codec'')) = ?n" by simp
      then have "r' = res"
        using profileName_inj Cons.prems(2,3) \<open>r' \<in> set (r # rest)\<close> by blast
      with \<open>r' \<noteq> res\<close> show False by simp
    qed
    then show ?thesis by (simp add: filter_empty_conv)
  qed
  have same: "filter (\<lambda>p. profile p = ?n) (tier_profiles s res) = tier_profiles s res"
    using tier_profiles_name [of _ s res] by (simp add: filter_id_conv)
  have rest_other: "filter (\<lambda>p. profile p = ?n) (concat (map (tier_profiles s) rest)) = []"
    if "res \<notin> set rest"
  proof -
    have "filter (\<lambda>p. profile p = ?n) (tier_profiles s r') = []" if "r' \<in> set rest" for r'
      using other [of r'] that \<open>res \<notin> set rest\<close> by auto
    then show ?thesis
      by (induction rest) (simp_all add: filter_concat)
  qed
  show ?case
  proof (cases "r = res")
    case True
    with Cons.prems(1) have "res \<notin> set rest" by simp
    then show ?thesis using True same rest_other by simp
  next
    case False
    with Cons.prems have "res \<in> set rest" "distinct rest" "\<forall>r \<in> set rest. CHR ''-'' \<notin> set r"
      by simp_all
    then have "filter (\<lambda>p. profile p = ?n) (concat (map (tier_profiles s) rest))
        = tier_profiles s res"
      using Cons.IH by simp
    then show ?thesis using other [of r] False by simp
  qed
qed

lemma loop_body_tm_only:
  assumes "tm st = tm st'"
  shows "tm (fst (loop_body s res st)) = tm (fst (loop_body s res st'))
       \<and> snd (loop_body s res st) = snd (loop_body s res st')"
  using assms by (simp add: loop_body_def Let_def info_def warn_def split: sum.splits)

lemma loop_tm_only:
  "tm st = tm st' \<Longrightarrow>
     tm (fst (resolution_loop s rs st)) = tm (fst (resolution_loop s rs st'))
       \<and> snd (resolution_loop s rs st) = snd (resolution_loop s rs st')"
proof (induction rs arbitrary: st st')
  case Nil
  then show ?case by simp
next
  case (Cons r rest)
  obtain a e where b: "loop_body s r st = (a, e)" by (cases "loop_body s r st")
  obtain a' e' where b': "loop_body s r st' = (a', e')" by (cases "loop_body s r st'")
  from loop_body_tm_only [OF Cons.prems, of s r] b b'
  have eq: "tm a = tm a'" "e = e'" by simp_all
  show ?case
  proof (cases e)
    case None
    then show ?thesis using b b' eq Cons.IH [OF eq(1)] by simp
  next
    case (Some x)
    then show ?thesis using b b' eq by simp
  qed
qed

lemma distinct_resolutions: "distinct resolutions"
  by (simp add: resolutions_def)

section \<open>The table after a run\<close>

lemma update_table:
  assumes "transcodingManager ctx = Some m" "logger ctx = Some l" "settingsManager ctx = Some g"
    and "s = (case init of Some s0 \<Rightarrow> s0 | None \<Rightarrow> g (settingNames ctx))"
  shows "\<exists>st. transcodingManager (fst (updateTranscodingProfiles init ctx)) = Some (tm st)
           \<and> st = fst (resolution_loop s resolutions
                         (info ''Updating transcoding profiles based on new settings...''
                            \<lparr>tm = removeAllProfilesAndEncoderPriorities m, lg = l\<rparr>))
           \<and> snd (updateTranscodingProfiles init ctx)
               = snd (resolution_loop s resolutions
                        (info ''Updating transcoding profiles based on new settings...''
                           \<lparr>tm = removeAllProfilesAndEncoderPriorities m, lg = l\<rparr>))"
  using update_populated [OF assms(1-3), of init] assms(4) by (simp add: Let_def)

lemma update_table_normal:
  assumes "transcodingManager ctx = Some m" "logger ctx = Some l" "settingsManager ctx = Some g"
    and "s = (case init of Some s0 \<Rightarrow> s0 | None \<Rightarrow> g (settingNames ctx))"
    and "snd (updateTranscodingProfiles init ctx) = None"
  shows "\<exists>m'. transcodingManager (fst (updateTranscodingProfiles init ctx)) = Some m'
           \<and> profiles m' = concat (map (tier_profiles s) resolutions)
           \<and> priorities m' = concat (map (tier_priorities s) resolutions)
           \<and> (\<forall>res \<in> set resolutions. active s res \<longrightarrow>
                 (\<exists>ip cp. parseOptionsString (js_or (s (key res ''input_params'')) (JStr '''')) = Inr ip
                   \<and> parseOptionsString (js_or (s (key res ''codec_params'')) (JStr '''')) = Inr cp))"
proof -
  let ?st0 = "info ''Updating transcoding profiles based on new settings...''
                \<lparr>tm = removeAllProfilesAndEncoderPriorities m, lg = l\<rparr>"
  let ?res = "resolution_loop s resolutions ?st0"
  from update_table [OF assms(1-4)]
  have c: "transcodingManager (fst (updateTranscodingProfiles init ctx)) = Some (tm (fst ?res))"
    and r: "snd ?res = None"
    using assms(5) by auto
  have e: "profiles (tm ?st0) = []" "priorities (tm ?st0) = []"
    by (simp_all add: info_def removeAllProfilesAndEncoderPriorities_def)
  show ?thesis
    using c loop_profiles_normal [OF r] loop_priorities_normal [OF r] e
      loop_normal_parses [OF r]
    by simp
qed

lemma update_table_subset:
  assumes "transcodingManager ctx = Some m" "logger ctx = Some l" "settingsManager ctx = Some g"
    and "s = (case init of Some s0 \<Rightarrow> s0 | None \<Rightarrow> g (settingNames ctx))"
  shows "\<exists>m'. transcodingManager (fst (updateTranscodingProfiles init ctx)) = Some m'
           \<and> set (profiles m') \<subseteq> (\<Union>res \<in> set resolutions. set (tier_profiles s res))
           \<and> set (priorities m') \<subseteq> (\<Union>res \<in> set resolutions. set (tier_priorities s res))"
proof -
  let ?st0 = "info ''Updating transcoding profiles based on new settings...''
                \<lparr>tm = removeAllProfilesAndEncoderPriorities m, lg = l\<rparr>"
  let ?res = "resolution_loop s resolutions ?st0"
  from update_table [OF assms(1-4)]
  have c: "transcodingManager (fst (updateTranscodingProfiles init ctx)) = Some (tm (fst ?res))"
    by auto
  have e: "profiles (tm ?st0) = []" "priorities (tm ?st0) = []"
    by (simp_all add: info_def removeAllProfilesAndEncoderPriorities_def)
  show ?thesis
    using c loop_profiles_subset [of s resolutions ?st0]
      loop_priorities_subset [of s resolutions ?st0] e
    by simp
qed

lemma parse_string: "parseOptionsString (JStr x) = Inr (match_all x)"
  by (simp add: parseOptionsString_def)

lemma tier_profiles_strings:
  assumes "truthy (s (key res ''enabled''))"
    and "s (key res ''codec'') = JStr c" "c \<noteq> []"
    and "s (key res ''input_params'') = JStr i"
    and "s (key res ''codec_params'') = JStr p"
  shows "tier_profiles s res =
     [\<lparr>encoder = JStr c, profile = ''custom-'' @ res @ ''-'' @ c,
       builder = Inr \<lparr>inputOptions = threadParams (transcodeThreads s) @ match_all i,
                      outputOptions = match_all p\<rparr>\<rparr>,
      \<lparr>encoder = audioCodec s, profile = ''custom-'' @ res @ ''-'' @ c,
       builder = (case parseOptionsString (audioParams s) of
                    Inl e \<Rightarrow> Inl e
                  | Inr ps \<Rightarrow> Inr \<lparr>inputOptions = [], outputOptions = ps\<rparr>)\<rparr>]"
proof -
  have n: "profileName res (JStr c) = ''custom-'' @ res @ ''-'' @ c"
    using assms(3) by (simp add: profileName_def js_or_def)
  have a: "active s res"
    using assms(1-3) by (simp add: active_def)
  show ?thesis
    using assms(2,4,5) by (simp add: tier_profiles_def a n parse_text_string)
qed

lemma concat_map_filter_if:
  "\<forall>x \<in> set xs. f x = (if P x then g x else []) \<Longrightarrow>
     concat (map f xs) = concat (map g (filter P xs))"
  by (induction xs) simp_all

lemma tier_priorities_parsed:
  assumes "active s res \<longrightarrow>
      (\<exists>ip cp. parseOptionsString (js_or (s (key res ''input_params'')) (JStr '''')) = Inr ip
         \<and> parseOptionsString (js_or (s (key res ''codec_params'')) (JStr '''')) = Inr cp)"
  shows "tier_priorities s res =
     (if active s res
      then [\<lparr>streamType = Video, encoderName = s (key res ''codec''), priority = 2000\<rparr>,
            \<lparr>streamType = Audio, encoderName = audioCodec s, priority = 2000\<rparr>]
      else [])"
  using assms by (auto simp: tier_priorities_def)

text \<open>
  A run returns when no \<^verbatim>\<open>input_params\<close> and no \<^verbatim>\<open>codec_params\<close> setting is
  the boolean \<^verbatim>\<open>true\<close>: every other value is falsy or a string.
\<close>

lemma update_returns:
  assumes "s = (case init of Some s0 \<Rightarrow> s0 | None \<Rightarrow> g (settingNames ctx))"
    and "settingsManager ctx = Some g \<or> settingsManager ctx = None"
    and "\<forall>res \<in> set resolutions. s (key res ''input_params'') \<noteq> JBool True
           \<and> s (key res ''codec_params'') \<noteq> JBool True"
  shows "snd (updateTranscodingProfiles init ctx) = None"
proof (cases "transcodingManager ctx = None \<or> logger ctx = None \<or> settingsManager ctx = None")
  case True
  then show ?thesis
    by (auto simp: updateTranscodingProfiles_def split: option.splits)
next
  case False
  then obtain m l where p: "transcodingManager ctx = Some m" "logger ctx = Some l"
    "settingsManager ctx = Some g"
    using assms(2) by auto
  from update_table [OF p assms(1)] loop_returns [OF assms(3)]
  show ?thesis by simp
qed

section \<open>Runs on the concrete settings\<close>

lemmas run_defs = updateTranscodingProfiles_def registered_context_def Let_def resolutions_def
  loop_body_def key_def settings_of_def info_def warn_def
  removeAllProfilesAndEncoderPriorities_def addVODProfile_def addVODEncoderPriority_def
  parseOptionsString_def js_or_def match_alt_def is_plain_def is_space_def dquote_def squote_def
  audioCodec_def audioParams_def transcodeThreads_def parseInt10_def threadParams_def
  profileName_def number_toString_def is_digit_def digits_val_def digit_val_def earlier_table_def
  match_all.simps match_plus.simps show_nat.simps

lemma scenario_run:
  "transcodingManager
     (fst (updateTranscodingProfiles (Some scenario_settings) (registered_context scenario_settings)))
     = Some
         \<lparr>profiles =
            [\<lparr>encoder = JStr ''libx264'', profile = ''custom-1080p-libx264'',
              builder = Inr \<lparr>inputOptions = [''-threads'', ''2'', ''-hwaccel'', ''auto''],
                             outputOptions = [''-crf'', ''23'', ''-preset'', ''veryfast'']\<rparr>\<rparr>,
             \<lparr>encoder = JStr ''aac'', profile = ''custom-1080p-libx264'',
              builder = Inr \<lparr>inputOptions = [], outputOptions = [''-b:a'', ''128k'']\<rparr>\<rparr>],
          priorities =
            [\<lparr>streamType = Video, encoderName = JStr ''libx264'', priority = 2000\<rparr>,
             \<lparr>streamType = Audio, encoderName = JStr ''aac'', priority = 2000\<rparr>]\<rparr>
   \<and> snd (updateTranscodingProfiles (Some scenario_settings) (registered_context scenario_settings)) = None"
  by (simp add: run_defs scenario_settings_def)

lemma shared_codec_run:
  "transcodingManager
     (fst (updateTranscodingProfiles (Some shared_codec_settings) (registered_context shared_codec_settings)))
     = Some
         \<lparr>profiles =
            [\<lparr>encoder = JStr ''libx264'', profile = ''custom-720p-libx264'',
              builder = Inr \<lparr>inputOptions = [], outputOptions = []\<rparr>\<rparr>,
             \<lparr>encoder = JStr ''aac'', profile = ''custom-720p-libx264'',
              builder = Inr \<lparr>inputOptions = [], outputOptions = [''-b:a'', ''128k'']\<rparr>\<rparr>,
             \<lparr>encoder = JStr ''libx264'', profile = ''custom-1080p-libx264'',
              builder = Inr \<lparr>inputOptions = [], outputOptions = []\<rparr>\<rparr>,
             \<lparr>encoder = JStr ''aac'', profile = ''custom-1080p-libx264'',
              builder = Inr \<lparr>inputOptions = [], outputOptions = [''-b:a'', ''128k'']\<rparr>\<rparr>],
          priorities =
            [\<lparr>streamType = Video, encoderName = JStr ''libx264'', priority = 2000\<rparr>,
             \<lparr>streamType = Audio, encoderName = JStr ''aac'', priority = 2000\<rparr>,
             \<lparr>streamType = Video, encoderName = JStr ''libx264'', priority = 2000\<rparr>,
             \<lparr>streamType = Audio, encoderName = JStr ''aac'', priority = 2000\<rparr>]\<rparr>
   \<and> snd (updateTranscodingProfiles (Some shared_codec_settings) (registered_context shared_codec_settings)) = None"
  by (simp add: run_defs shared_codec_settings_def)

lemma empty_codec_run:
  "updateTranscodingProfiles (Some empty_codec_settings) (registered_context empty_codec_settings)
     = ((registered_context empty_codec_settings)
          \<lparr>transcodingManager := Some \<lparr>profiles = [], priorities = []\<rparr>,
           logger := Some
             [(Info, ''Updating transcoding profiles based on new settings...''),
              (Warn, ''Video codec for resolution 144p is not defined. Skipping.''),
              (Info, ''Resolution 240p is disabled, skipping.''),
              (Info, ''Resolution 360p is disabled, skipping.''),
              (Info, ''Resolution 480p is disabled, skipping.''),
              (Info, ''Resolution 720p is disabled, skipping.''),
              (Info, ''Resolution 1080p is disabled, skipping.''),
              (Info, ''Resolution 1440p is disabled, skipping.''),
              (Info, ''Resolution 2160p is disabled, skipping.'')]\<rparr>,
        None)"
  by (simp add: run_defs empty_codec_settings_def)

lemma scenario_returns:
  "snd (updateTranscodingProfiles (Some scenario_settings) (registered_context scenario_settings))
     = None"
  using scenario_run by (rule conjunct2)

lemma scenario_values:
  "truthy (scenario_settings (key ''1080p'' ''enabled''))"
  "scenario_settings (key ''1080p'' ''codec'') = JStr ''libx264''"
  "scenario_settings (key ''1080p'' ''input_params'') = JStr ''-hwaccel auto''"
  "scenario_settings (key ''1080p'' ''codec_params'') = JStr ''-crf 23 -preset veryfast''"
  "\<not> truthy (scenario_settings (key ''144p'' ''enabled''))"
  by (simp_all add: scenario_settings_def settings_of_def key_def)

lemma scenario_audio:
  "audioCodec scenario_settings = JStr ''aac''"
  "parseOptionsString (audioParams scenario_settings) = Inr [''-b:a'', ''128k'']"
  "parseOptionsString (scenario_settings ''audio_params'') = Inr [''-b:a'', ''128k'']"
  by (simp_all add: audioCodec_def audioParams_def js_or_def scenario_settings_def settings_of_def
      parseOptionsString_def match_all.simps match_plus.simps match_alt_def is_plain_def
      is_space_def dquote_def squote_def)

lemma shared_codec_returns:
  "snd (updateTranscodingProfiles (Some shared_codec_settings)
          (registered_context shared_codec_settings)) = None"
  using shared_codec_run by (rule conjunct2)

section \<open>C4: the tokenizer on the example of the specification\<close>

text \<open>
  C4. The specification gives
  \<^verbatim>\<open>tokenize('-vf "scale=w=1280:h=720" -preset fast')\<close> as the four tokens
  \<^verbatim>\<open>-vf\<close>, \<^verbatim>\<open>scale=w=1280:h=720\<close>, \<^verbatim>\<open>-preset\<close>, \<^verbatim>\<open>fast\<close>, the quotes removed.
  The source returns the whole text of each match: the second token keeps both
  of its double quotes. The groups inside the quotes capture the text without
  them, and \<^verbatim>\<open>match\<close> with the flag \<^verbatim>\<open>g\<close> drops every capture.
\<close>

theorem parseOptionsString_keeps_quotes:
  \<open>parseOptionsString (JStr ''-vf "scale=w=1280:h=720" -preset fast'')
     = Inr [''-vf'', ''"scale=w=1280:h=720"'', ''-preset'', ''fast'']
   \<and> parseOptionsString (JStr ''-vf "scale=w=1280:h=720" -preset fast'')
     \<noteq> Inr [''-vf'', ''scale=w=1280:h=720'', ''-preset'', ''fast'']
   \<and> parseOptionsString (JStr '''') = Inr []\<close>
  by (simp add: parseOptionsString_def match_all.simps match_plus.simps match_alt_def
      is_plain_def is_space_def dquote_def squote_def)

section \<open>C9: the placeholders of the output filters\<close>

text \<open>
  C9. The two replacements of the source, made one after the other, are the
  substitution of the specification: every \<^verbatim>\<open>%w\<close> becomes the decimal
  rendering of the width, every \<^verbatim>\<open>%h\<close> that of the height, and every other
  character stays. The example of the specification is the second part.
\<close>

theorem resolve_outputFilters_substitutes:
  \<open>resolve_outputFilters (JStr f) w h
     = Inr (JStr (substitute_placeholders (number_toString w) (number_toString h) f))
   \<and> resolve_outputFilters (JStr ''-vf "scale=w=%w:h=%h"'') 1280 720
     = Inr (JStr ''-vf "scale=w=1280:h=720"'')\<close>
proof
  show "resolve_outputFilters (JStr f) w h
     = Inr (JStr (substitute_placeholders (number_toString w) (number_toString h) f))"
    by (simp add: resolve_outputFilters_def placeholders_seq_eq number_toString_nonempty
        number_toString_no_percent number_toString_head)
next
  show \<open>resolve_outputFilters (JStr ''-vf "scale=w=%w:h=%h"'') 1280 720
     = Inr (JStr ''-vf "scale=w=1280:h=720"'')\<close>
    by (simp add: resolve_outputFilters_def number_toString_def show_nat.simps)
qed

section \<open>C1: the options of a video profile\<close>

text \<open>
  C1. The specification puts the thread flag, the pair \<^verbatim>\<open>-c:v\<close> with the codec, the
  tokens of the codec parameters and the tokens of the output filters into
  \<open>outputOptions\<close>, and the tokens of the input parameters alone into
  \<open>inputOptions\<close>. The source does otherwise, and the theorem states what it
  does. For an enabled tier whose codec is a string that is not empty, in a run
  of \<^verbatim>\<open>updateTranscodingProfiles\<close> that returns: the table holds a profile under
  the codec as encoder name, named \<^verbatim>\<open>custom-<tier>-<codec>\<close>, whose
  \<open>inputOptions\<close> are the thread tokens followed by the tokens of the input
  parameters, and whose \<open>outputOptions\<close> are the tokens of the codec parameters
  and nothing else. The video builder of the single-profile variant returns the
  tokens of the input parameters as \<open>inputOptions\<close>, and \<^verbatim>\<open>-c:v\<close>, the codec and
  the tokens of the codec parameters as \<open>outputOptions\<close>.
\<close>

theorem video_profile_options:
  assumes "transcodingManager ctx = Some m" "logger ctx = Some l" "settingsManager ctx = Some g"
    and "snd (updateTranscodingProfiles (Some s) ctx) = None"
    and "res \<in> set resolutions"
    and "truthy (s (key res ''enabled''))"
    and "s (key res ''codec'') = JStr c" "c \<noteq> []"
    and "s (key res ''input_params'') = JStr i"
    and "s (key res ''codec_params'') = JStr p"
    and "rk = number_toString h @ ''p''"
    and "s' = g' [key rk ''codec'', key rk ''input_params'', key rk ''codec_params'']"
    and "s' (key rk ''codec'') = JStr c'" "c' \<noteq> []"
    and "s' (key rk ''input_params'') = JStr i'"
    and "s' (key rk ''codec_params'') = JStr p'"
  shows "(\<exists>m'. transcodingManager (fst (updateTranscodingProfiles (Some s) ctx)) = Some m'
            \<and> \<lparr>encoder = JStr c, profile = ''custom-'' @ res @ ''-'' @ c,
                builder = Inr \<lparr>inputOptions = threadParams (transcodeThreads s) @ match_all i,
                               outputOptions = match_all p\<rparr>\<rparr> \<in> set (profiles m'))
       \<and> snd (video_builder g' h)
           = Inr \<lparr>inputOptions = map JStr (match_all i'),
                  outputOptions = JStr ''-c:v'' # JStr c' # map JStr (match_all p')\<rparr>"
proof -
  from update_table_normal [OF assms(1-3) _ assms(4), of s]
  obtain m' where m': "transcodingManager (fst (updateTranscodingProfiles (Some s) ctx)) = Some m'"
    and pr: "profiles m' = concat (map (tier_profiles s) resolutions)"
    by auto
  let ?v = "\<lparr>encoder = JStr c, profile = ''custom-'' @ res @ ''-'' @ c,
             builder = Inr \<lparr>inputOptions = threadParams (transcodeThreads s) @ match_all i,
                            outputOptions = match_all p\<rparr>\<rparr>"
  have "?v \<in> set (tier_profiles s res)"
    by (simp add: tier_profiles_strings [OF assms(6-10)])
  with assms(5) have "?v \<in> set (profiles m')"
    unfolding pr by auto
  with m' have a: "\<exists>m'. transcodingManager (fst (updateTranscodingProfiles (Some s) ctx)) = Some m'
      \<and> ?v \<in> set (profiles m')"
    by blast
  have b: "snd (video_builder g' h)
      = Inr \<lparr>inputOptions = map JStr (match_all i'),
             outputOptions = JStr ''-c:v'' # JStr c' # map JStr (match_all p')\<rparr>"
    using assms(11-16) by (simp add: video_builder_def Let_def parse_string)
  from a b show ?thesis by (rule conjI)
qed

theorem video_profile_options_witness:
  "truthy (scenario_settings (key ''1080p'' ''enabled''))
   \<and> scenario_settings (key ''1080p'' ''codec'') = JStr ''libx264''
   \<and> (\<exists>m'. transcodingManager
              (fst (updateTranscodingProfiles (Some scenario_settings)
                      (registered_context scenario_settings))) = Some m'
          \<and> \<lparr>encoder = JStr ''libx264'', profile = ''custom-1080p-libx264'',
              builder = Inr \<lparr>inputOptions = [''-threads'', ''2'', ''-hwaccel'', ''auto''],
                             outputOptions = [''-crf'', ''23'', ''-preset'', ''veryfast'']\<rparr>\<rparr>
                \<in> set (profiles m'))
   \<and> snd (video_builder (\<lambda>names. scenario_settings) 1080)
       = Inr \<lparr>inputOptions = [JStr ''-hwaccel'', JStr ''auto''],
              outputOptions = [JStr ''-c:v'', JStr ''libx264'', JStr ''-crf'', JStr ''23'',
                               JStr ''-preset'', JStr ''veryfast'']\<rparr>"
proof -
  have r: "''1080p'' \<in> set resolutions"
    by (simp add: resolutions_def)
  have k: "''1080p'' = number_toString 1080 @ ''p''"
    by (simp add: number_toString_def show_nat.simps)
  have t: "threadParams (transcodeThreads scenario_settings) = [''-threads'', ''2'']"
    by (simp add: threadParams_def transcodeThreads_def parseInt10_def scenario_settings_def
        settings_of_def is_space_def is_digit_def digits_val_def digit_val_def
        number_toString_def show_nat.simps)
  have i: "match_all ''-hwaccel auto'' = [''-hwaccel'', ''auto'']"
    by (simp add: match_all.simps match_plus.simps match_alt_def is_plain_def is_space_def
        dquote_def squote_def)
  have p: "match_all ''-crf 23 -preset veryfast'' = [''-crf'', ''23'', ''-preset'', ''veryfast'']"
    by (simp add: match_all.simps match_plus.simps match_alt_def is_plain_def is_space_def
        dquote_def squote_def)
  have c: "''libx264'' \<noteq> []" by simp
  from video_profile_options
    [where ctx = "registered_context scenario_settings" and g' = "\<lambda>names. scenario_settings"
       and s = scenario_settings and res = "''1080p''" and h = 1080,
      OF _ _ _ scenario_returns r scenario_values(1,2) c scenario_values(3,4) k refl
         scenario_values(2) c scenario_values(3,4)]
  show ?thesis
    using scenario_values(1,2) by (simp add: registered_context_def t i p)
qed

theorem video_profile_options_counterexample:
  "truthy (scenario_settings (key ''1080p'' ''enabled''))
   \<and> scenario_settings (key ''1080p'' ''codec'') = JStr ''libx264''
   \<and> scenario_settings (key ''1080p'' ''input_params'') = JStr ''-hwaccel auto''
   \<and> scenario_settings (key ''1080p'' ''codec_params'') = JStr ''-crf 23 -preset veryfast''
   \<and> transcodeThreads scenario_settings = 2
   \<and> transcodingManager
        (fst (updateTranscodingProfiles (Some scenario_settings)
                (registered_context scenario_settings)))
       = Some
           \<lparr>profiles =
              [\<lparr>encoder = JStr ''libx264'', profile = ''custom-1080p-libx264'',
                builder = Inr \<lparr>inputOptions = [''-threads'', ''2'', ''-hwaccel'', ''auto''],
                               outputOptions = [''-crf'', ''23'', ''-preset'', ''veryfast'']\<rparr>\<rparr>,
               \<lparr>encoder = JStr ''aac'', profile = ''custom-1080p-libx264'',
                builder = Inr \<lparr>inputOptions = [], outputOptions = [''-b:a'', ''128k'']\<rparr>\<rparr>],
            priorities =
              [\<lparr>streamType = Video, encoderName = JStr ''libx264'', priority = 2000\<rparr>,
               \<lparr>streamType = Audio, encoderName = JStr ''aac'', priority = 2000\<rparr>]\<rparr>
   \<and> claimed_video_outputOptions 2 ''libx264'' ''-crf 23 -preset veryfast'' '''' 1920 1080
       \<noteq> [''-crf'', ''23'', ''-preset'', ''veryfast'']
   \<and> match_all ''-hwaccel auto'' \<noteq> [''-threads'', ''2'', ''-hwaccel'', ''auto'']"
proof -
  have t: "transcodeThreads scenario_settings = 2"
    by (simp add: transcodeThreads_def parseInt10_def scenario_settings_def
        settings_of_def is_space_def is_digit_def digits_val_def digit_val_def)
  have i: "match_all ''-hwaccel auto'' = [''-hwaccel'', ''auto'']"
    by (simp add: match_all.simps match_plus.simps match_alt_def is_plain_def is_space_def
        dquote_def squote_def)
  have cl: "claimed_video_outputOptions 2 ''libx264'' ''-crf 23 -preset veryfast'' '''' 1920 1080
      \<noteq> [''-crf'', ''23'', ''-preset'', ''veryfast'']"
    by (simp add: claimed_video_outputOptions_def)
  show ?thesis
    using scenario_values(1-4) t cl by (simp add: scenario_run i)
qed

section \<open>C2: an enabled tier without a codec\<close>

text \<open>
  C2. The specification has a fallback profile with \<^verbatim>\<open>libx264\<close> and \<^verbatim>\<open>-crf 23\<close> for an
  enabled tier whose codec is empty. In \<^verbatim>\<open>updateTranscodingProfiles\<close> the pass
  for such a tier logs a warning and leaves the transcoding manager as it is:
  the tier gets no profile and no priority. The fallback is what the video
  builder of the single-profile variant returns, with a warning, when the
  codec setting of the resolution is not truthy and the two parameter settings
  can be tokenized; that variant has no \<^verbatim>\<open>enabled\<close> setting.
\<close>

theorem empty_codec_skipped_and_fallback:
  assumes "truthy (s (key res ''enabled''))"
    and "\<not> truthy (s (key res ''codec''))"
    and "rk = number_toString h @ ''p''"
    and "s' = g [key rk ''codec'', key rk ''input_params'', key rk ''codec_params'']"
    and "\<not> truthy (s' (key rk ''codec''))"
    and "s' (key rk ''input_params'') \<noteq> JBool True"
    and "s' (key rk ''codec_params'') \<noteq> JBool True"
  shows "loop_body s res st
           = (warn (''Video codec for resolution '' @ res @ '' is not defined. Skipping.'') st, None)
       \<and> tm (fst (loop_body s res st)) = tm st
       \<and> video_builder g h
           = ([(Warn, [squote] @ PROFILE_NAME @ [squote] @ '' is active for '' @ rk
                      @ '', but no codec is configured. Using fallback.'')],
              Inr \<lparr>inputOptions = [],
                   outputOptions = [JStr ''-c:v'', JStr ''libx264'', JStr ''-crf'', JStr ''23'']\<rparr>)"
proof -
  have a: "loop_body s res st
      = (warn (''Video codec for resolution '' @ res @ '' is not defined. Skipping.'') st, None)"
    using assms(1,2) by (simp add: loop_body_def Let_def)
  have b: "tm (fst (loop_body s res st)) = tm st"
    by (simp add: a warn_def)
  have p: "\<exists>ts. parseOptionsString v = Inr ts" if "v \<noteq> JBool True" for v
    using that by (cases v) (auto simp: parseOptionsString_def)
  obtain ip cp where
    "parseOptionsString (s' (key rk ''input_params'')) = Inr ip"
    "parseOptionsString (s' (key rk ''codec_params'')) = Inr cp"
    using p assms(6,7) by blast
  then have c: "video_builder g h
      = ([(Warn, [squote] @ PROFILE_NAME @ [squote] @ '' is active for '' @ rk
                 @ '', but no codec is configured. Using fallback.'')],
         Inr \<lparr>inputOptions = [],
              outputOptions = [JStr ''-c:v'', JStr ''libx264'', JStr ''-crf'', JStr ''23'']\<rparr>)"
    using assms(3,4,5) by (simp add: video_builder_def Let_def)
  from a b c show ?thesis by simp
qed

theorem empty_codec_skipped_and_fallback_witness:
  "truthy (empty_codec_settings (key ''144p'' ''enabled''))
   \<and> \<not> truthy (empty_codec_settings (key ''144p'' ''codec''))
   \<and> tm (fst (loop_body empty_codec_settings ''144p'' \<lparr>tm = earlier_table, lg = []\<rparr>)) = earlier_table
   \<and> snd (video_builder (\<lambda>names. empty_codec_settings) 144)
       = Inr \<lparr>inputOptions = [],
              outputOptions = [JStr ''-c:v'', JStr ''libx264'', JStr ''-crf'', JStr ''23'']\<rparr>"
proof -
  have e: "truthy (empty_codec_settings (key ''144p'' ''enabled''))"
    by (simp add: empty_codec_settings_def settings_of_def key_def)
  have c: "\<not> truthy (empty_codec_settings (key ''144p'' ''codec''))"
    by (simp add: empty_codec_settings_def settings_of_def key_def)
  have k: "''144p'' = number_toString 144 @ ''p''"
    by (simp add: number_toString_def show_nat.simps)
  have i: "empty_codec_settings (key ''144p'' ''input_params'') \<noteq> JBool True"
    by (simp add: empty_codec_settings_def settings_of_def key_def)
  have p: "empty_codec_settings (key ''144p'' ''codec_params'') \<noteq> JBool True"
    by (simp add: empty_codec_settings_def settings_of_def key_def)
  from empty_codec_skipped_and_fallback
    [where g = "\<lambda>names. empty_codec_settings" and st = "\<lparr>tm = earlier_table, lg = []\<rparr>",
      OF e c k refl c i p]
  show ?thesis using e c by (simp add: warn_def)
qed

theorem empty_codec_counterexample:
  "truthy (empty_codec_settings (key ''144p'' ''enabled''))
   \<and> empty_codec_settings (key ''144p'' ''codec'') = JStr ''''
   \<and> transcodingManager
        (fst (updateTranscodingProfiles (Some empty_codec_settings)
                (registered_context empty_codec_settings)))
       = Some \<lparr>profiles = [], priorities = []\<rparr>"
proof -
  have e: "truthy (empty_codec_settings (key ''144p'' ''enabled''))"
    by (simp add: empty_codec_settings_def settings_of_def key_def)
  have c: "empty_codec_settings (key ''144p'' ''codec'') = JStr ''''"
    by (simp add: empty_codec_settings_def settings_of_def key_def)
  show ?thesis using e c by (simp add: empty_codec_run)
qed

section \<open>C3: a disabled tier\<close>

text \<open>
  C3. For a tier whose \<^verbatim>\<open>enabled\<close> setting is not truthy, \<^verbatim>\<open>false\<close> among them:
  the pass of the loop for the tier leaves the transcoding manager as it is
  and throws nothing; after the run, whether it returned or threw, no profile
  of the table has the name of that tier with any codec, and every video
  priority of the table names the codec of another tier, one that is enabled.
  In the hook variant the profile of a disabled resolution becomes \<^verbatim>\<open>null\<close> and
  is dropped from the result.
\<close>

theorem disabled_tier_excluded:
  assumes "transcodingManager ctx = Some m" "logger ctx = Some l" "settingsManager ctx = Some g"
    and "s = (case init of Some s0 \<Rightarrow> s0 | None \<Rightarrow> g (settingNames ctx))"
    and "res \<in> set resolutions"
    and "\<not> truthy (s (key res ''enabled''))"
    and "\<not> truthy (get (key (number_toString (id_res (resolution p)) @ ''p'') ''enabled''))"
  shows "tm (fst (loop_body s res st)) = tm st \<and> snd (loop_body s res st) = None
       \<and> (\<exists>m'. transcodingManager (fst (updateTranscodingProfiles init ctx)) = Some m'
             \<and> (\<forall>q \<in> set (profiles m'). \<forall>c. profile q \<noteq> profileName res c)
             \<and> (\<forall>e \<in> set (priorities m'). streamType e = Video \<longrightarrow>
                   (\<exists>res' \<in> set resolutions. res' \<noteq> res \<and> truthy (s (key res' ''enabled''))
                      \<and> encoderName e = s (key res' ''codec''))))
       \<and> snd (transform_profile get config p) = Inr None
       \<and> snd (transform_profiles get config [p]) = Inr []"
proof -
  have body: "tm (fst (loop_body s res st)) = tm st \<and> snd (loop_body s res st) = None"
    using assms(6) by (simp add: loop_body_def Let_def info_def)
  have inactive: "\<not> active s res"
    using assms(6) by (simp add: active_def)
  from update_table_subset [OF assms(1-4)]
  obtain m' where m': "transcodingManager (fst (updateTranscodingProfiles init ctx)) = Some m'"
    and pr: "set (profiles m') \<subseteq> (\<Union>r \<in> set resolutions. set (tier_profiles s r))"
    and pi: "set (priorities m') \<subseteq> (\<Union>r \<in> set resolutions. set (tier_priorities s r))"
    by auto
  have names: "profile q \<noteq> profileName res c" if q: "q \<in> set (profiles m')" for q c
  proof
    assume eq: "profile q = profileName res c"
    from q pr obtain r where r: "r \<in> set resolutions" "q \<in> set (tier_profiles s r)"
      by auto
    from tier_profiles_name [OF r(2)]
    have n: "profile q = profileName r (s (key r ''codec''))" and a: "active s r"
      by simp_all
    from n eq have "profileName r (s (key r ''codec'')) = profileName res c" by simp
    then have "r = res"
      using profileName_inj resolutions_no_dash r(1) assms(5) by blast
    with a inactive show False by simp
  qed
  have prios: "\<exists>res' \<in> set resolutions. res' \<noteq> res \<and> truthy (s (key res' ''enabled''))
      \<and> encoderName e = s (key res' ''codec'')"
    if e: "e \<in> set (priorities m')" "streamType e = Video" for e
  proof -
    from e(1) pi obtain r where r: "r \<in> set resolutions" "e \<in> set (tier_priorities s r)"
      by auto
    from tier_priorities_video [OF r(2) e(2)]
    have c: "encoderName e = s (key r ''codec'')" and a: "active s r"
      by simp_all
    from a inactive have "r \<noteq> res" by auto
    moreover from a have "truthy (s (key r ''enabled''))" by (simp add: active_def)
    ultimately show ?thesis using r(1) c by blast
  qed
  have hook: "snd (transform_profile get config p) = Inr None"
    using assms(7) by (simp add: transform_profile_def Let_def)
  then have hooks: "snd (transform_profiles get config [p]) = Inr []"
    by (cases "transform_profile get config p") simp
  from m' names prios
  have table: "\<exists>m'. transcodingManager (fst (updateTranscodingProfiles init ctx)) = Some m'
      \<and> (\<forall>q \<in> set (profiles m'). \<forall>c. profile q \<noteq> profileName res c)
      \<and> (\<forall>e \<in> set (priorities m'). streamType e = Video \<longrightarrow>
            (\<exists>res' \<in> set resolutions. res' \<noteq> res \<and> truthy (s (key res' ''enabled''))
               \<and> encoderName e = s (key res' ''codec'')))"
    by blast
  from body table hook hooks show ?thesis by blast
qed

theorem disabled_tier_excluded_witness:
  "\<not> truthy (scenario_settings (key ''144p'' ''enabled''))
   \<and> scenario_settings (key ''144p'' ''codec'') = JStr ''libx264''
   \<and> tm (fst (loop_body scenario_settings ''144p'' \<lparr>tm = earlier_table, lg = []\<rparr>)) = earlier_table
   \<and> (\<exists>m'. transcodingManager
              (fst (updateTranscodingProfiles None (registered_context scenario_settings)))
              = Some m'
          \<and> (\<forall>q \<in> set (profiles m'). \<forall>c. profile q \<noteq> profileName ''144p'' c)
          \<and> (\<forall>e \<in> set (priorities m'). streamType e = Video \<longrightarrow>
                (\<exists>res' \<in> set resolutions. res' \<noteq> ''144p''
                   \<and> truthy (scenario_settings (key res' ''enabled''))
                   \<and> encoderName e = scenario_settings (key res' ''codec''))))
   \<and> snd (transform_profiles scenario_settings
             \<lparr>audio_codec = ''aac'', audio_params = ''-b:a 128k'', transcode_threads = 0\<rparr>
             [\<lparr>resolution = \<lparr>id_res = 144, width = 256, height = 144\<rparr>, arguments = ''''\<rparr>])
       = Inr []"
proof -
  have r: "''144p'' \<in> set resolutions"
    by (simp add: resolutions_def)
  have c: "scenario_settings (key ''144p'' ''codec'') = JStr ''libx264''"
    by (simp add: scenario_settings_def settings_of_def key_def)
  have k: "number_toString (id_res (resolution
      \<lparr>resolution = \<lparr>id_res = 144, width = 256, height = 144\<rparr>, arguments = ''''\<rparr>)) @ ''p''
      = ''144p''"
    by (simp add: number_toString_def show_nat.simps)
  have d: "\<not> truthy (scenario_settings (key (number_toString (id_res (resolution
      \<lparr>resolution = \<lparr>id_res = 144, width = 256, height = 144\<rparr>, arguments = ''''\<rparr>)) @ ''p'')
      ''enabled''))"
    unfolding k by (rule scenario_values(5))
  from disabled_tier_excluded
    [where ctx = "registered_context scenario_settings" and init = None
       and s = scenario_settings and res = "''144p''" and get = scenario_settings
       and st = "\<lparr>tm = earlier_table, lg = []\<rparr>"
       and config = "\<lparr>audio_codec = ''aac'', audio_params = ''-b:a 128k'', transcode_threads = 0\<rparr>",
      OF _ _ _ _ r scenario_values(5) d]
  show ?thesis
    using scenario_values(5) c by (simp add: registered_context_def)
qed

section \<open>C5: the priority entries\<close>

text \<open>
  C5. The specification has one priority entry for each distinct codec name. The
  source adds the two priorities inside the loop, so the table of a run that
  returns holds, in the order of the tiers, one video entry and one audio entry
  for every active tier, each with the score 2000: a codec that two tiers share
  is entered twice, and the audio codec once for every active tier. The
  single-profile variant adds one audio entry and one video entry, once.
\<close>

theorem priority_entries_per_tier:
  assumes "transcodingManager ctx = Some m" "logger ctx = Some l" "settingsManager ctx = Some g"
    and "snd (updateTranscodingProfiles (Some s) ctx) = None"
  shows "(\<exists>m'. transcodingManager (fst (updateTranscodingProfiles (Some s) ctx)) = Some m'
            \<and> priorities m'
                = concat (map (\<lambda>res.
                    [\<lparr>streamType = Video, encoderName = s (key res ''codec''), priority = 2000\<rparr>,
                     \<lparr>streamType = Audio, encoderName = audioCodec s, priority = 2000\<rparr>])
                    (filter (active s) resolutions)))
       \<and> priorities (register_profiles m0)
           = priorities m0
             @ [\<lparr>streamType = Audio, encoderName = JStr ''aac'', priority = 2000\<rparr>,
                \<lparr>streamType = Video, encoderName = JStr ''placeholder-video-codec'',
                 priority = 2000\<rparr>]"
proof -
  from update_table_normal [OF assms(1-3) _ assms(4), of s]
  obtain m' where m': "transcodingManager (fst (updateTranscodingProfiles (Some s) ctx)) = Some m'"
    and pr: "priorities m' = concat (map (tier_priorities s) resolutions)"
    and pa: "\<forall>res \<in> set resolutions. active s res \<longrightarrow>
               (\<exists>ip cp. parseOptionsString (js_or (s (key res ''input_params'')) (JStr '''')) = Inr ip
                 \<and> parseOptionsString (js_or (s (key res ''codec_params'')) (JStr '''')) = Inr cp)"
    by auto
  let ?g = "\<lambda>res. [\<lparr>streamType = Video, encoderName = s (key res ''codec''), priority = 2000\<rparr>,
                   \<lparr>streamType = Audio, encoderName = audioCodec s, priority = 2000\<rparr>]"
  have "\<forall>res \<in> set resolutions. tier_priorities s res = (if active s res then ?g res else [])"
    using pa tier_priorities_parsed by blast
  then have "concat (map (tier_priorities s) resolutions)
      = concat (map ?g (filter (active s) resolutions))"
    by (rule concat_map_filter_if)
  with m' pr have a: "\<exists>m'. transcodingManager (fst (updateTranscodingProfiles (Some s) ctx)) = Some m'
      \<and> priorities m' = concat (map ?g (filter (active s) resolutions))"
    by simp
  have b: "priorities (register_profiles m0)
      = priorities m0
        @ [\<lparr>streamType = Audio, encoderName = JStr ''aac'', priority = 2000\<rparr>,
           \<lparr>streamType = Video, encoderName = JStr ''placeholder-video-codec'', priority = 2000\<rparr>]"
    by (simp add: register_profiles_def addVODEncoderPriority_def addVODProfile_def)
  from a b show ?thesis by (rule conjI)
qed

theorem priority_entries_per_tier_witness:
  "filter (active shared_codec_settings) resolutions = [''720p'', ''1080p'']
   \<and> (\<exists>m'. transcodingManager
              (fst (updateTranscodingProfiles (Some shared_codec_settings)
                      (registered_context shared_codec_settings))) = Some m'
          \<and> priorities m'
              = [\<lparr>streamType = Video, encoderName = JStr ''libx264'', priority = 2000\<rparr>,
                 \<lparr>streamType = Audio, encoderName = JStr ''aac'', priority = 2000\<rparr>,
                 \<lparr>streamType = Video, encoderName = JStr ''libx264'', priority = 2000\<rparr>,
                 \<lparr>streamType = Audio, encoderName = JStr ''aac'', priority = 2000\<rparr>])
   \<and> priorities (register_profiles \<lparr>profiles = [], priorities = []\<rparr>)
       = [\<lparr>streamType = Audio, encoderName = JStr ''aac'', priority = 2000\<rparr>,
          \<lparr>streamType = Video, encoderName = JStr ''placeholder-video-codec'', priority = 2000\<rparr>]"
proof -
  have f: "filter (active shared_codec_settings) resolutions = [''720p'', ''1080p'']"
    by (simp add: active_def resolutions_def shared_codec_settings_def settings_of_def key_def)
  have v: "shared_codec_settings (key ''720p'' ''codec'') = JStr ''libx264''"
    "shared_codec_settings (key ''1080p'' ''codec'') = JStr ''libx264''"
    "audioCodec shared_codec_settings = JStr ''aac''"
    by (simp_all add: shared_codec_settings_def settings_of_def key_def audioCodec_def js_or_def)
  from priority_entries_per_tier
    [where ctx = "registered_context shared_codec_settings" and s = shared_codec_settings
       and ?m0.0 = "\<lparr>profiles = [], priorities = []\<rparr>",
      OF _ _ _ shared_codec_returns]
  show ?thesis
    by (simp add: registered_context_def f v)
qed

theorem priority_entries_counterexample:
  "shared_codec_settings (key ''720p'' ''codec'') = JStr ''libx264''
   \<and> shared_codec_settings (key ''1080p'' ''codec'') = JStr ''libx264''
   \<and> map_option priorities
        (transcodingManager
           (fst (updateTranscodingProfiles (Some shared_codec_settings)
                   (registered_context shared_codec_settings))))
       = Some [\<lparr>streamType = Video, encoderName = JStr ''libx264'', priority = 2000\<rparr>,
               \<lparr>streamType = Audio, encoderName = JStr ''aac'', priority = 2000\<rparr>,
               \<lparr>streamType = Video, encoderName = JStr ''libx264'', priority = 2000\<rparr>,
               \<lparr>streamType = Audio, encoderName = JStr ''aac'', priority = 2000\<rparr>]
   \<and> \<not> distinct [\<lparr>streamType = Video, encoderName = JStr ''libx264'', priority = 2000\<rparr>,
                   \<lparr>streamType = Audio, encoderName = JStr ''aac'', priority = 2000\<rparr>,
                   \<lparr>streamType = Video, encoderName = JStr ''libx264'', priority = 2000\<rparr>,
                   \<lparr>streamType = Audio, encoderName = JStr ''aac'', priority = 2000\<rparr>]"
proof -
  have v: "shared_codec_settings (key ''720p'' ''codec'') = JStr ''libx264''"
    "shared_codec_settings (key ''1080p'' ''codec'') = JStr ''libx264''"
    by (simp_all add: shared_codec_settings_def settings_of_def key_def)
  show ?thesis
    using v by (simp add: shared_codec_run)
qed

section \<open>C6: the audio profile of a tier\<close>

text \<open>
  C6. The specification has an audio profile for every enabled tier, with a pair that
  selects the audio codec in its \<open>outputOptions\<close>. In the source the audio
  profile is added for an enabled tier whose codec is truthy; its
  \<open>outputOptions\<close> are the tokens of the audio parameters and nothing else, and
  the audio codec is the encoder name of the profile. The theorem: in a run
  that returns, for an enabled tier with the codec \<open>c\<close>, the profiles named
  \<^verbatim>\<open>custom-<tier>-<c>\<close> are exactly two, the video profile with encoder \<open>c\<close>
  and then the audio profile, with empty \<open>inputOptions\<close>. The audio builder of
  the single-profile variant returns the tokens of the audio parameters as
  well.
\<close>

theorem audio_profile_per_tier:
  assumes "transcodingManager ctx = Some m" "logger ctx = Some l" "settingsManager ctx = Some g"
    and "snd (updateTranscodingProfiles (Some s) ctx) = None"
    and "res \<in> set resolutions"
    and "truthy (s (key res ''enabled''))"
    and "s (key res ''codec'') = JStr c" "c \<noteq> []"
    and "parseOptionsString (audioParams s) = Inr ps"
    and "parseOptionsString (g' [''audio_params''] ''audio_params'') = Inr ps'"
  shows "(\<exists>m' v. transcodingManager (fst (updateTranscodingProfiles (Some s) ctx)) = Some m'
            \<and> filter (\<lambda>q. profile q = ''custom-'' @ res @ ''-'' @ c) (profiles m')
                = [v, \<lparr>encoder = audioCodec s, profile = ''custom-'' @ res @ ''-'' @ c,
                       builder = Inr \<lparr>inputOptions = [], outputOptions = ps\<rparr>\<rparr>]
            \<and> encoder v = JStr c)
       \<and> audio_builder g' = Inr \<lparr>inputOptions = [], outputOptions = map JStr ps'\<rparr>"
proof -
  from update_table_normal [OF assms(1-3) _ assms(4), of s]
  obtain m' where m': "transcodingManager (fst (updateTranscodingProfiles (Some s) ctx)) = Some m'"
    and pr: "profiles m' = concat (map (tier_profiles s) resolutions)"
    and pa: "\<forall>res \<in> set resolutions. active s res \<longrightarrow>
               (\<exists>ip cp. parseOptionsString (js_or (s (key res ''input_params'')) (JStr '''')) = Inr ip
                 \<and> parseOptionsString (js_or (s (key res ''codec_params'')) (JStr '''')) = Inr cp)"
    by auto
  have act: "active s res"
    using assms(6-8) by (simp add: active_def)
  with pa assms(5) obtain ip cp where
    ip: "parseOptionsString (js_or (s (key res ''input_params'')) (JStr '''')) = Inr ip"
    and cp: "parseOptionsString (js_or (s (key res ''codec_params'')) (JStr '''')) = Inr cp"
    by blast
  have n: "profileName res (s (key res ''codec'')) = ''custom-'' @ res @ ''-'' @ c"
    using assms(7,8) by (simp add: profileName_def js_or_def)
  let ?v = "\<lparr>encoder = JStr c, profile = ''custom-'' @ res @ ''-'' @ c,
             builder = Inr \<lparr>inputOptions = threadParams (transcodeThreads s) @ ip,
                            outputOptions = cp\<rparr>\<rparr>"
  let ?a = "\<lparr>encoder = audioCodec s, profile = ''custom-'' @ res @ ''-'' @ c,
             builder = Inr \<lparr>inputOptions = [], outputOptions = ps\<rparr>\<rparr>"
  have tp: "tier_profiles s res = [?v, ?a]"
    using act ip cp assms(7,9) n by (simp add: tier_profiles_def)
  have "filter (\<lambda>q. profile q = profileName res (s (key res ''codec'')))
          (concat (map (tier_profiles s) resolutions)) = tier_profiles s res"
    using distinct_resolutions assms(5) resolutions_no_dash
    by (intro filter_tier_profiles) blast+
  then have "filter (\<lambda>q. profile q = ''custom-'' @ res @ ''-'' @ c) (profiles m') = [?v, ?a]"
    using pr n tp by simp
  then have a: "\<exists>m' v. transcodingManager (fst (updateTranscodingProfiles (Some s) ctx)) = Some m'
      \<and> filter (\<lambda>q. profile q = ''custom-'' @ res @ ''-'' @ c) (profiles m') = [v, ?a]
      \<and> encoder v = JStr c"
    using m' by (intro exI [of _ m'] exI [of _ ?v]) simp
  have b: "audio_builder g' = Inr \<lparr>inputOptions = [], outputOptions = map JStr ps'\<rparr>"
    using assms(10) by (simp add: audio_builder_def Let_def)
  from a b show ?thesis by (rule conjI)
qed

theorem audio_profile_per_tier_witness:
  "truthy (scenario_settings (key ''1080p'' ''enabled''))
   \<and> scenario_settings (key ''1080p'' ''codec'') = JStr ''libx264''
   \<and> (\<exists>m' v. transcodingManager
               (fst (updateTranscodingProfiles (Some scenario_settings)
                       (registered_context scenario_settings))) = Some m'
          \<and> filter (\<lambda>q. profile q = ''custom-1080p-libx264'') (profiles m')
              = [v, \<lparr>encoder = JStr ''aac'', profile = ''custom-1080p-libx264'',
                     builder = Inr \<lparr>inputOptions = [], outputOptions = [''-b:a'', ''128k'']\<rparr>\<rparr>]
          \<and> encoder v = JStr ''libx264'')
   \<and> audio_builder (\<lambda>names. scenario_settings)
       = Inr \<lparr>inputOptions = [], outputOptions = [JStr ''-b:a'', JStr ''128k'']\<rparr>"
proof -
  have r: "''1080p'' \<in> set resolutions"
    by (simp add: resolutions_def)
  have c: "''libx264'' \<noteq> []" by simp
  from audio_profile_per_tier
    [where ctx = "registered_context scenario_settings" and g' = "\<lambda>names. scenario_settings"
       and s = scenario_settings and res = "''1080p''",
      OF _ _ _ scenario_returns r scenario_values(1,2) c scenario_audio(2,3)]
  show ?thesis
    using scenario_values(1,2) by (simp add: registered_context_def scenario_audio(1))
qed

theorem audio_profile_counterexample:
  "audioCodec scenario_settings = JStr ''aac''
   \<and> audioParams scenario_settings = JStr ''-b:a 128k''
   \<and> transcodingManager
        (fst (updateTranscodingProfiles (Some scenario_settings)
                (registered_context scenario_settings)))
       = Some
           \<lparr>profiles =
              [\<lparr>encoder = JStr ''libx264'', profile = ''custom-1080p-libx264'',
                builder = Inr \<lparr>inputOptions = [''-threads'', ''2'', ''-hwaccel'', ''auto''],
                               outputOptions = [''-crf'', ''23'', ''-preset'', ''veryfast'']\<rparr>\<rparr>,
               \<lparr>encoder = JStr ''aac'', profile = ''custom-1080p-libx264'',
                builder = Inr \<lparr>inputOptions = [], outputOptions = [''-b:a'', ''128k'']\<rparr>\<rparr>],
            priorities =
              [\<lparr>streamType = Video, encoderName = JStr ''libx264'', priority = 2000\<rparr>,
               \<lparr>streamType = Audio, encoderName = JStr ''aac'', priority = 2000\<rparr>]\<rparr>
   \<and> claimed_audio_outputOptions ''aac'' ''-b:a 128k'' \<noteq> [''-b:a'', ''128k'']"
proof -
  have p: "audioParams scenario_settings = JStr ''-b:a 128k''"
    by (simp add: audioParams_def js_or_def scenario_settings_def settings_of_def)
  have cl: "claimed_audio_outputOptions ''aac'' ''-b:a 128k'' \<noteq> [''-b:a'', ''128k'']"
    by (simp add: claimed_audio_outputOptions_def)
  show ?thesis
    using scenario_audio(1) p cl by (simp add: scenario_run)
qed

section \<open>C7: reloading gives the same table\<close>

text \<open>
  C7. The table after \<^verbatim>\<open>updateTranscodingProfiles\<close> is determined by the
  settings the run works on. Two contexts that are set, whatever their
  transcoding managers held and their loggers logged before, give the same
  table and the same outcome when the runs work on the same settings; and a
  second reload on the context the first one left gives the table of the first.
\<close>

theorem reload_deterministic:
  assumes "transcodingManager ctx1 = Some m1" "logger ctx1 = Some l1" "settingsManager ctx1 = Some g1"
    and "transcodingManager ctx2 = Some m2" "logger ctx2 = Some l2" "settingsManager ctx2 = Some g2"
    and "(case init of Some s0 \<Rightarrow> s0 | None \<Rightarrow> g1 (settingNames ctx1))
       = (case init of Some s0 \<Rightarrow> s0 | None \<Rightarrow> g2 (settingNames ctx2))"
  shows "transcodingManager (fst (updateTranscodingProfiles init ctx1))
           = transcodingManager (fst (updateTranscodingProfiles init ctx2))
       \<and> snd (updateTranscodingProfiles init ctx1) = snd (updateTranscodingProfiles init ctx2)
       \<and> transcodingManager
            (fst (updateTranscodingProfiles init (fst (updateTranscodingProfiles init ctx1))))
           = transcodingManager (fst (updateTranscodingProfiles init ctx1))
       \<and> snd (updateTranscodingProfiles init (fst (updateTranscodingProfiles init ctx1)))
           = snd (updateTranscodingProfiles init ctx1)"
proof -
  have two: "transcodingManager (fst (updateTranscodingProfiles init a))
        = transcodingManager (fst (updateTranscodingProfiles init b))
      \<and> snd (updateTranscodingProfiles init a) = snd (updateTranscodingProfiles init b)"
    if a: "transcodingManager a = Some ma" "logger a = Some la" "settingsManager a = Some ga"
      and b: "transcodingManager b = Some mb" "logger b = Some lb" "settingsManager b = Some gb"
      and s: "(case init of Some s0 \<Rightarrow> s0 | None \<Rightarrow> ga (settingNames a))
            = (case init of Some s0 \<Rightarrow> s0 | None \<Rightarrow> gb (settingNames b))"
    for a b ma la ga mb lb gb
  proof -
    let ?s = "case init of Some s0 \<Rightarrow> s0 | None \<Rightarrow> ga (settingNames a)"
    let ?a0 = "info ''Updating transcoding profiles based on new settings...''
                 \<lparr>tm = removeAllProfilesAndEncoderPriorities ma, lg = la\<rparr>"
    let ?b0 = "info ''Updating transcoding profiles based on new settings...''
                 \<lparr>tm = removeAllProfilesAndEncoderPriorities mb, lg = lb\<rparr>"
    have e: "tm ?a0 = tm ?b0"
      by (simp add: info_def removeAllProfilesAndEncoderPriorities_def)
    from update_table [OF a refl]
    have ua: "transcodingManager (fst (updateTranscodingProfiles init a))
          = Some (tm (fst (resolution_loop ?s resolutions ?a0)))"
      "snd (updateTranscodingProfiles init a) = snd (resolution_loop ?s resolutions ?a0)"
      by auto
    from update_table [OF b s]
    have ub: "transcodingManager (fst (updateTranscodingProfiles init b))
          = Some (tm (fst (resolution_loop ?s resolutions ?b0)))"
      "snd (updateTranscodingProfiles init b) = snd (resolution_loop ?s resolutions ?b0)"
      by auto
    show ?thesis
      using ua ub loop_tm_only [OF e, of ?s resolutions] by simp
  qed
  let ?c = "fst (updateTranscodingProfiles init ctx1)"
  have c: "\<exists>mc lc. transcodingManager ?c = Some mc \<and> logger ?c = Some lc
      \<and> settingsManager ?c = Some g1 \<and> settingNames ?c = settingNames ctx1"
    using update_populated [OF assms(1-3), of init] assms(3) by (simp add: Let_def)
  then obtain mc lc where mc: "transcodingManager ?c = Some mc" "logger ?c = Some lc"
    "settingsManager ?c = Some g1" and n: "settingNames ?c = settingNames ctx1"
    by blast
  have again: "transcodingManager (fst (updateTranscodingProfiles init ?c))
        = transcodingManager (fst (updateTranscodingProfiles init ctx1))
      \<and> snd (updateTranscodingProfiles init ?c) = snd (updateTranscodingProfiles init ctx1)"
  proof (rule two [OF mc assms(1-3)])
    show "(case init of Some s0 \<Rightarrow> s0 | None \<Rightarrow> g1 (settingNames ?c))
        = (case init of Some s0 \<Rightarrow> s0 | None \<Rightarrow> g1 (settingNames ctx1))"
      by (subst n) (rule refl)
  qed
  from two [OF assms(1-3) assms(4-6) assms(7)] again show ?thesis by simp
qed

theorem reload_deterministic_witness:
  "transcodingManager
     (fst (updateTranscodingProfiles None (registered_context scenario_settings)))
     = transcodingManager
         (fst (updateTranscodingProfiles None
                 \<lparr>transcodingManager = Some \<lparr>profiles = [], priorities = []\<rparr>,
                  settingsManager = Some (\<lambda>names. scenario_settings),
                  logger = Some [(Info, ''Registering Universal Transcoder Plugin...'')],
                  settingNames = [''audio_codec'']\<rparr>))
   \<and> transcodingManager
        (fst (updateTranscodingProfiles None
                (fst (updateTranscodingProfiles None (registered_context scenario_settings)))))
       = transcodingManager
           (fst (updateTranscodingProfiles None (registered_context scenario_settings)))"
  using reload_deterministic
    [where ?ctx1.0 = "registered_context scenario_settings"
       and ?ctx2.0 = "\<lparr>transcodingManager = Some \<lparr>profiles = [], priorities = []\<rparr>,
                      settingsManager = Some (\<lambda>names. scenario_settings),
                      logger = Some [(Info, ''Registering Universal Transcoder Plugin...'')],
                      settingNames = [''audio_codec'']\<rparr>"
       and init = None]
  by (simp add: registered_context_def)

section \<open>The contexts the plugin can reach\<close>

lemma update_unpopulated:
  "transcodingManager ctx = None \<or> logger ctx = None \<or> settingsManager ctx = None \<Longrightarrow>
     updateTranscodingProfiles init ctx = (ctx, None)"
  by (auto simp: updateTranscodingProfiles_def split: option.splits)

lemma unregister_unpopulated:
  "transcodingManager ctx = None \<or> logger ctx = None \<Longrightarrow> unregister ctx = ctx"
  by (auto simp: unregister_def split: option.splits)

lemma update_keeps_populated:
  assumes "populated ctx"
  shows "populated (fst (updateTranscodingProfiles init ctx))"
proof -
  from assms obtain m l g where p: "transcodingManager ctx = Some m" "logger ctx = Some l"
    "settingsManager ctx = Some g"
    by (auto simp: populated_def)
  show ?thesis
    using update_populated [OF p, of init] p(3) by (simp add: Let_def populated_def)
qed

lemma unregister_keeps_populated: "populated ctx \<Longrightarrow> populated (unregister ctx)"
  by (auto simp: populated_def unregister_def)

lemma register_populated: "populated (fst (register options ctx))"
  unfolding register_def by (rule update_keeps_populated) (simp add: populated_def)

text \<open>The three references are set together: a reachable context has all of them or none.\<close>

lemma reachable_all_or_none: "reachable ctx \<Longrightarrow> unpopulated ctx \<or> populated ctx"
proof (induction ctx rule: reachable.induct)
  case initial
  then show ?case by (simp add: unpopulated_def pluginContext_def)
next
  case (registered ctx options)
  then show ?case using register_populated by blast
next
  case (updated ctx init)
  from updated.IH show ?case
  proof
    assume u: "unpopulated ctx"
    then have "updateTranscodingProfiles init ctx = (ctx, None)"
      by (intro update_unpopulated) (simp add: unpopulated_def)
    with u show ?thesis by simp
  next
    assume "populated ctx"
    then show ?thesis using update_keeps_populated by blast
  qed
next
  case (unregistered ctx)
  from unregistered.IH show ?case
  proof
    assume u: "unpopulated ctx"
    then have "unregister ctx = ctx"
      by (intro unregister_unpopulated) (simp add: unpopulated_def)
    with u show ?thesis by simp
  next
    assume "populated ctx"
    then show ?thesis using unregister_keeps_populated by blast
  qed
qed

section \<open>C10: calls before the context is set\<close>

text \<open>
  C10. While the transcoding manager, the settings manager or the logger is
  still null, \<^verbatim>\<open>updateTranscodingProfiles\<close> and \<^verbatim>\<open>unregister\<close> return the
  context as it is: nothing is added to or removed from the transcoding
  manager, nothing is logged, nothing is thrown. For
  \<^verbatim>\<open>updateTranscodingProfiles\<close> this holds of every context. \<^verbatim>\<open>unregister\<close>
  tests the transcoding manager and the logger; in a context the program can
  reach the three references are null together, before registration, so there
  it holds of \<^verbatim>\<open>unregister\<close> as well.
\<close>

theorem calls_before_registration:
  "(transcodingManager ctx = None \<or> logger ctx = None \<or> settingsManager ctx = None
      \<longrightarrow> updateTranscodingProfiles init ctx = (ctx, None))
   \<and> (reachable ctx
      \<longrightarrow> transcodingManager ctx = None \<or> logger ctx = None \<or> settingsManager ctx = None
      \<longrightarrow> unregister ctx = ctx)"
proof (intro conjI impI)
  assume "transcodingManager ctx = None \<or> logger ctx = None \<or> settingsManager ctx = None"
  then show "updateTranscodingProfiles init ctx = (ctx, None)"
    by (rule update_unpopulated)
next
  assume r: "reachable ctx"
    and n: "transcodingManager ctx = None \<or> logger ctx = None \<or> settingsManager ctx = None"
  from n have "\<not> populated ctx" by (auto simp: populated_def)
  with reachable_all_or_none [OF r] have "unpopulated ctx" by blast
  then show "unregister ctx = ctx"
    by (intro unregister_unpopulated) (simp add: unpopulated_def)
qed

theorem calls_before_registration_witness:
  "reachable pluginContext
   \<and> transcodingManager pluginContext = None
   \<and> logger pluginContext = None
   \<and> settingsManager pluginContext = None
   \<and> updateTranscodingProfiles None pluginContext = (pluginContext, None)
   \<and> unregister pluginContext = pluginContext"
proof -
  have n: "transcodingManager pluginContext = None" "logger pluginContext = None"
    "settingsManager pluginContext = None"
    by (simp_all add: pluginContext_def)
  from calls_before_registration [of pluginContext None] reachable.initial n
  show ?thesis by simp
qed

end
